theory Spec2Isabelle
  imports Main "HOL-Library.Sublist"
begin

section \<open>letsencrypt-aws: certificate renewal over DNS-01\<close>

text \<open>
  A shallow embedding of \<^verbatim>\<open>letsencrypt-aws.py\<close>. The ACME client, the Route53 client, the
  key generator and the file system are outside the program: they are the fields of an
  environment record. Every call to them is appended to a trace together with what it
  returned, and every answer of the environment may depend on the trace so far, so that
  a collaborator can fail at any call. An exception is the \<open>Inl\<close> branch of a sum.
\<close>

subsection \<open>Errors and plain data\<close>

datatype error =
    ValueError string
  | IndexError string
  | KeyError string
  | ClientError string
  | AcmeError string
  | IOError string

definition DNS_TTL :: nat where
  "DNS_TTL = 30"

text \<open>Python's \<^verbatim>\<open>s.endswith(suf)\<close>.\<close>

definition endswith :: "string \<Rightarrow> string \<Rightarrow> bool" where
  "endswith s suf = (length suf \<le> length s \<and> drop (length s - length suf) s = suf)"

text \<open>Python's \<^verbatim>\<open>sep.join(xs)\<close>.\<close>

fun join :: "string \<Rightarrow> string list \<Rightarrow> string" where
  "join sep [] = []"
| "join sep [x] = x"
| "join sep (x # y # ys) = x @ sep @ join sep (y # ys)"

subsection \<open>Keys and certificate signing requests\<close>

text \<open>
  \<^verbatim>\<open>rsa.generate_private_key(public_exponent, key_size)\<close> and
  \<^verbatim>\<open>ec.generate_private_key(curve)\<close>; the last argument is the secret material.
\<close>

datatype private_key =
    RSAPrivateKey nat nat string
  | ECPrivateKey string string

datatype name_oid = COMMON_NAME | ORGANIZATION_NAME | COUNTRY_NAME

datatype general_name = DNSName string

datatype extension_value = SubjectAlternativeName "general_name list"

record extension =
  ext_value :: extension_value
  critical :: bool

datatype hash_algorithm = SHA256 | SHA1

record csr =
  subject_name :: "(name_oid \<times> string) list"
  extensions :: "extension list"
  signed_with :: private_key
  signature_hash :: hash_algorithm

text \<open>\<^verbatim>\<open>hosts[0]\<close> raises IndexError on the empty list, before anything is built.\<close>

definition generate_csr :: "private_key \<Rightarrow> string list \<Rightarrow> error + csr" where
  "generate_csr private_key hosts =
     (case hosts of
        [] \<Rightarrow> Inl (IndexError ''list index out of range'')
      | h0 # _ \<Rightarrow>
          Inr \<lparr> subject_name = [(COMMON_NAME, h0)],
                extensions = [\<lparr> ext_value = SubjectAlternativeName (map DNSName hosts),
                                critical = False \<rparr>],
                signed_with = private_key,
                signature_hash = SHA256 \<rparr>)"




subsection \<open>ACME authorizations and challenges\<close>

datatype challenge = DNS01 string | HTTP01 string | TLSSNI01 string

record challenge_body =
  chall :: challenge
  chall_uri :: string

record authorization =
  authz_uri :: string
  resolved_combinations :: "challenge_body list list"

text \<open>
  The generator \<^verbatim>\<open>find_dns_challenge\<close>, as the list of what it yields. A combination of
  length 1 has a first element, so \<open>hd\<close> is read only where it is defined.
\<close>

fun find_dns_challenge_in :: "challenge_body list list \<Rightarrow> challenge_body list" where
  "find_dns_challenge_in [] = []"
| "find_dns_challenge_in (combo # combos) =
     (if length combo = 1 \<and> (case chall (hd combo) of DNS01 _ \<Rightarrow> True | _ \<Rightarrow> False)
      then hd combo # find_dns_challenge_in combos
      else find_dns_challenge_in combos)"

definition find_dns_challenge :: "authorization \<Rightarrow> challenge_body list" where
  "find_dns_challenge authz = find_dns_challenge_in (resolved_combinations authz)"

record authorization_record =
  host :: string
  authz :: authorization
  dns_challenge :: challenge_body
  route53_change_id :: string
  route53_zone_id :: "string option"

subsection \<open>Route53 data\<close>

record hosted_zone =
  zone_Name :: string
  zone_Id :: string

text \<open>
  The one change of a \<^verbatim>\<open>ChangeBatch\<close> that \<^verbatim>\<open>change_txt_record\<close> sends. The zone id is
  optional because \<^verbatim>\<open>find_zone_id_for_domain\<close> returns \<^verbatim>\<open>None\<close> when it finds no zone.
\<close>

record change_request =
  HostedZoneId :: "string option"
  Action :: string
  rr_Name :: string
  rr_Type :: string
  rr_TTL :: nat
  rr_Value :: string

record certificate_resource =
  cert_body :: string
  cert_uri :: string

datatype encoding = PEM | DER
datatype private_format = TraditionalOpenSSL | PKCS8
datatype key_encryption = NoEncryption | BestAvailableEncryption string

subsection \<open>The trace and the world\<close>

datatype event =
    Emit string "(string \<times> string) list"
  | GenerateKey private_key
  | OpenWrite string "error + unit"
  | FileWrite string string
  | FileClose string
  | RequestDomainChallenges string "error + authorization"
  | ListHostedZones
  | ChangeResourceRecordSets change_request "error + string"
  | GetChange string "error + string"
  | Sleep nat
  | SimpleVerify string challenge string string "error + bool"
  | AnswerChallenge challenge_body string "error + unit"
  | PollAndRequestIssuance csr "authorization list" "error + certificate_resource"
  | FetchChain certificate_resource "error + string list"

record world =
  trace :: "event list"
  files :: "string \<Rightarrow> string option"

record env =
  acme_key :: string
  public_key :: "string \<Rightarrow> string"
  request_domain_challenges :: "event list \<Rightarrow> string \<Rightarrow> error + authorization"
  answer_challenge :: "event list \<Rightarrow> challenge_body \<Rightarrow> string \<Rightarrow> error + unit"
  poll_and_request_issuance ::
    "event list \<Rightarrow> csr \<Rightarrow> authorization list \<Rightarrow> error + certificate_resource"
  fetch_chain :: "event list \<Rightarrow> certificate_resource \<Rightarrow> error + string list"
  validation_domain_name :: "challenge_body \<Rightarrow> string \<Rightarrow> string"
  validation :: "challenge_body \<Rightarrow> string \<Rightarrow> string"
  response :: "challenge_body \<Rightarrow> string \<Rightarrow> string"
  simple_verify :: "event list \<Rightarrow> string \<Rightarrow> challenge \<Rightarrow> string \<Rightarrow> string \<Rightarrow> error + bool"
  list_hosted_zones :: "event list \<Rightarrow> (error + hosted_zone list) list"
  change_resource_record_sets :: "event list \<Rightarrow> change_request \<Rightarrow> error + string"
  get_change :: "event list \<Rightarrow> string \<Rightarrow> error + string"
  rsa_generate :: "event list \<Rightarrow> nat \<Rightarrow> nat \<Rightarrow> string"
  ec_generate :: "event list \<Rightarrow> string \<Rightarrow> string"
  private_bytes :: "private_key \<Rightarrow> encoding \<Rightarrow> private_format \<Rightarrow> key_encryption \<Rightarrow> string"
  dump_certificate :: "string \<Rightarrow> string"
  open_write :: "event list \<Rightarrow> string \<Rightarrow> error + unit"

definition record_event :: "world \<Rightarrow> event \<Rightarrow> world" where
  "record_event w e = w\<lparr>trace := trace w @ [e]\<rparr>"

text \<open>\<^verbatim>\<open>Logger.emit\<close>: the event name and the keyword data, written to standard output.\<close>

definition emit :: "world \<Rightarrow> string \<Rightarrow> (string \<times> string) list \<Rightarrow> world" where
  "emit w ev data = record_event w (Emit ev data)"

subsection \<open>Key generation and files\<close>

definition generate_rsa_private_key :: "env \<Rightarrow> world \<Rightarrow> world \<times> private_key" where
  "generate_rsa_private_key env w =
     (let k = RSAPrivateKey 65537 2048 (rsa_generate env (trace w) 65537 2048)
      in (record_event w (GenerateKey k), k))"

definition generate_ecdsa_private_key :: "env \<Rightarrow> world \<Rightarrow> world \<times> private_key" where
  "generate_ecdsa_private_key env w =
     (let k = ECPrivateKey ''secp256r1'' (ec_generate env (trace w) ''secp256r1'')
      in (record_event w (GenerateKey k), k))"

text \<open>\<^verbatim>\<open>open(path, 'w')\<close> truncates the file when it succeeds.\<close>

definition open_w :: "env \<Rightarrow> world \<Rightarrow> string \<Rightarrow> world \<times> (error + unit)" where
  "open_w env w path =
     (let r = open_write env (trace w) path;
          w1 = record_event w (OpenWrite path r)
      in case r of
           Inl e \<Rightarrow> (w1, Inl e)
         | Inr u \<Rightarrow> (w1\<lparr>files := (files w1)(path \<mapsto> [])\<rparr>, Inr ()))"

definition f_write :: "world \<Rightarrow> string \<Rightarrow> string \<Rightarrow> world" where
  "f_write w path data =
     (record_event w (FileWrite path data))
       \<lparr>files := (files w)(path \<mapsto> (case files w path of None \<Rightarrow> data | Some old \<Rightarrow> old @ data))\<rparr>"

definition f_close :: "world \<Rightarrow> string \<Rightarrow> world" where
  "f_close w path = record_event w (FileClose path)"

subsection \<open>Zone resolution\<close>

definition zone_matches :: "string \<Rightarrow> hosted_zone \<Rightarrow> bool" where
  "zone_matches domain zone =
     (endswith domain (zone_Name zone) \<or> endswith (domain @ ''.'') (zone_Name zone))"

fun scan_zones :: "hosted_zone list \<Rightarrow> string \<Rightarrow> string option" where
  "scan_zones [] domain = None"
| "scan_zones (zone # zones) domain =
     (if zone_matches domain zone then Some (zone_Id zone) else scan_zones zones domain)"

text \<open>
  The paginator is lazy: a page is fetched when the loop reaches it, so a page that
  fails to load raises only if no earlier page held a match.
\<close>

fun scan_pages :: "(error + hosted_zone list) list \<Rightarrow> string \<Rightarrow> error + string option" where
  "scan_pages [] domain = Inr None"
| "scan_pages (Inl e # pages) domain = Inl e"
| "scan_pages (Inr page # pages) domain =
     (case scan_zones page domain of
        Some zone_id \<Rightarrow> Inr (Some zone_id)
      | None \<Rightarrow> scan_pages pages domain)"

definition find_zone_id_for_domain ::
  "env \<Rightarrow> world \<Rightarrow> string \<Rightarrow> world \<times> (error + string option)" where
  "find_zone_id_for_domain env w domain =
     (record_event w ListHostedZones, scan_pages (list_hosted_zones env (trace w)) domain)"

subsection \<open>TXT records\<close>

text \<open>\<^verbatim>\<open>'"{}"'.format(value)\<close>: the value between two double quotes.\<close>

definition quoted :: "string \<Rightarrow> string" where
  "quoted v = CHR 0x22 # v @ [CHR 0x22]"

definition change_txt_record ::
  "env \<Rightarrow> world \<Rightarrow> string \<Rightarrow> string option \<Rightarrow> string \<Rightarrow> string \<Rightarrow> world \<times> (error + string)" where
  "change_txt_record env w action zone_id domain v =
     (let req = \<lparr> HostedZoneId = zone_id, Action = action, rr_Name = domain,
                   rr_Type = ''TXT'', rr_TTL = DNS_TTL, rr_Value = quoted v \<rparr>;
          r = change_resource_record_sets env (trace w) req
      in (record_event w (ChangeResourceRecordSets req r), r))"

text \<open>
  \<^verbatim>\<open>wait_for_route53_change\<close> polls with no bound: where the provider never reports
  \<^verbatim>\<open>INSYNC\<close> the loop does not return, which is the value \<open>None\<close>.
\<close>

partial_function (option) wait_for_route53_change ::
  "env \<Rightarrow> world \<Rightarrow> string \<Rightarrow> (world \<times> (error + unit)) option" where
  "wait_for_route53_change env w change_id =
     (case get_change env (trace w) change_id of
        Inl e \<Rightarrow> Some (record_event w (GetChange change_id (Inl e)), Inl e)
      | Inr status \<Rightarrow>
          if status = ''INSYNC''
          then Some (record_event w (GetChange change_id (Inr status)), Inr ())
          else wait_for_route53_change env
                 (record_event (record_event w (GetChange change_id (Inr status))) (Sleep 5))
                 change_id)"

declare wait_for_route53_change.simps [code]

subsection \<open>One host's challenge\<close>

definition start_dns_challenge ::
  "env \<Rightarrow> world \<Rightarrow> string \<Rightarrow> string \<Rightarrow> world \<times> (error + authorization_record)" where
  "start_dns_challenge env w elb_name h =
     (let w1 = emit w ''updating-elb.request-acme-challenge''
                 [(''elb_name'', elb_name), (''host'', h)];
          r = request_domain_challenges env (trace w1) h;
          w2 = record_event w1 (RequestDomainChallenges h r)
      in case r of
           Inl e \<Rightarrow> (w2, Inl e)
         | Inr az \<Rightarrow>
             (case find_dns_challenge az of
                [] \<Rightarrow> (w2, Inl (ValueError ''need more than 0 values to unpack''))
              | dc # others \<Rightarrow>
                  (case others of
                     _ # _ \<Rightarrow> (w2, Inl (ValueError ''too many values to unpack''))
                   | [] \<Rightarrow>
                       (case find_zone_id_for_domain env w2 h of
                          (w3, Inl e) \<Rightarrow> (w3, Inl e)
                        | (w3, Inr zone_id) \<Rightarrow>
                            (let w4 = emit w3 ''updating-elb.create-txt-record''
                                        [(''elb_name'', elb_name), (''host'', h)]
                             in case change_txt_record env w4 ''CREATE'' zone_id
                                       (validation_domain_name env dc h)
                                       (validation env dc (acme_key env)) of
                                  (w5, Inl e) \<Rightarrow> (w5, Inl e)
                                | (w5, Inr change_id) \<Rightarrow>
                                    (w5, Inr \<lparr> host = h, authz = az, dns_challenge = dc,
                                               route53_change_id = change_id,
                                               route53_zone_id = zone_id \<rparr>))))))"

definition complete_dns_challenge ::
  "env \<Rightarrow> world \<Rightarrow> string \<Rightarrow> authorization_record \<Rightarrow> (world \<times> (error + unit)) option" where
  "complete_dns_challenge env w elb_name authz_record =
     (let w1 = emit w ''updating-elb.wait-for-route53''
                 [(''elb_name'', elb_name), (''host'', host authz_record)]
      in case wait_for_route53_change env w1 (route53_change_id authz_record) of
           None \<Rightarrow> None
         | Some (w2, Inl e) \<Rightarrow> Some (w2, Inl e)
         | Some (w2, Inr u) \<Rightarrow>
             (let resp = response env (dns_challenge authz_record) (acme_key env);
                  w3 = emit w2 ''updating-elb.local-validation''
                         [(''elb_name'', elb_name), (''host'', host authz_record)];
                  v = simple_verify env (trace w3) resp (chall (dns_challenge authz_record))
                        (host authz_record) (public_key env (acme_key env));
                  w4 = record_event w3
                         (SimpleVerify resp (chall (dns_challenge authz_record))
                            (host authz_record) (public_key env (acme_key env)) v)
              in case v of
                   Inl e \<Rightarrow> Some (w4, Inl e)
                 | Inr verified \<Rightarrow>
                     if \<not> verified then Some (w4, Inl (ValueError ''Failed verification''))
                     else
                       (let w5 = emit w4 ''updating-elb.answer-challenge''
                                   [(''elb_name'', elb_name), (''host'', host authz_record)];
                            a = answer_challenge env (trace w5) (dns_challenge authz_record) resp
                        in Some (record_event w5
                                   (AnswerChallenge (dns_challenge authz_record) resp a), a))))"

subsection \<open>Issuance\<close>

definition request_certificate ::
  "env \<Rightarrow> world \<Rightarrow> string \<Rightarrow> authorization_record list \<Rightarrow> csr \<Rightarrow>
     world \<times> (error + string \<times> string)" where
  "request_certificate env w elb_name authorizations c =
     (let w1 = emit w ''updating-elb.request-cert'' [(''elb_name'', elb_name)];
          r = poll_and_request_issuance env (trace w1) c (map authz authorizations);
          w2 = record_event w1 (PollAndRequestIssuance c (map authz authorizations) r)
      in case r of
           Inl e \<Rightarrow> (w2, Inl e)
         | Inr cert_response \<Rightarrow>
             (let pem_certificate = dump_certificate env (cert_body cert_response);
                  ch = fetch_chain env (trace w2) cert_response;
                  w3 = record_event w2 (FetchChain cert_response ch)
              in case ch of
                   Inl e \<Rightarrow> (w3, Inl e)
                 | Inr certs \<Rightarrow>
                     (w3, Inr (pem_certificate,
                               join [CHR 0x0A] (map (dump_certificate env) certs)))))"

subsection \<open>One domain entry\<close>

text \<open>The first loop of the \<^verbatim>\<open>try\<close> block: the records appended so far are returned
  also when a host fails, since the \<^verbatim>\<open>finally\<close> block reads them.\<close>

fun start_all ::
  "env \<Rightarrow> world \<Rightarrow> string \<Rightarrow> string list \<Rightarrow> authorization_record list \<Rightarrow>
     world \<times> authorization_record list \<times> (error + unit)" where
  "start_all env w elb_name [] authorizations = (w, authorizations, Inr ())"
| "start_all env w elb_name (h # hs) authorizations =
     (case start_dns_challenge env w elb_name h of
        (w1, Inl e) \<Rightarrow> (w1, authorizations, Inl e)
      | (w1, Inr authz_record) \<Rightarrow>
          start_all env w1 elb_name hs (authorizations @ [authz_record]))"

fun complete_all ::
  "env \<Rightarrow> world \<Rightarrow> string \<Rightarrow> authorization_record list \<Rightarrow> (world \<times> (error + unit)) option" where
  "complete_all env w elb_name [] = Some (w, Inr ())"
| "complete_all env w elb_name (authz_record # rest) =
     (case complete_dns_challenge env w elb_name authz_record of
        None \<Rightarrow> None
      | Some (w1, Inl e) \<Rightarrow> Some (w1, Inl e)
      | Some (w1, Inr u) \<Rightarrow> complete_all env w1 elb_name rest)"

text \<open>The body of the \<^verbatim>\<open>try\<close> block, with the list \<^verbatim>\<open>authorizations\<close> as it stands
  when the block is left.\<close>

definition try_body ::
  "env \<Rightarrow> world \<Rightarrow> string \<Rightarrow> string list \<Rightarrow> csr \<Rightarrow> string \<Rightarrow>
     (world \<times> authorization_record list \<times> (error + unit)) option" where
  "try_body env w elb_name hosts c fullchain_path =
     (case start_all env w elb_name hosts [] of
        (w1, authorizations, Inl e) \<Rightarrow> Some (w1, authorizations, Inl e)
      | (w1, authorizations, Inr u) \<Rightarrow>
          (case complete_all env w1 elb_name authorizations of
             None \<Rightarrow> None
           | Some (w2, Inl e) \<Rightarrow> Some (w2, authorizations, Inl e)
           | Some (w2, Inr u) \<Rightarrow>
               (case request_certificate env w2 elb_name authorizations c of
                  (w3, Inl e) \<Rightarrow> Some (w3, authorizations, Inl e)
                | (w3, Inr (pem_certificate, pem_certificate_chain)) \<Rightarrow>
                    (case open_w env w3 fullchain_path of
                       (w4, Inl e) \<Rightarrow> Some (w4, authorizations, Inl e)
                     | (w4, Inr u) \<Rightarrow>
                         Some (f_close
                                 (f_write (f_write w4 fullchain_path pem_certificate)
                                    fullchain_path pem_certificate_chain)
                                 fullchain_path,
                               authorizations, Inr ())))))"

text \<open>The \<^verbatim>\<open>finally\<close> block: a loop with no handler of its own.\<close>

fun cleanup ::
  "env \<Rightarrow> world \<Rightarrow> string \<Rightarrow> authorization_record list \<Rightarrow> world \<times> (error + unit)" where
  "cleanup env w elb_name [] = (w, Inr ())"
| "cleanup env w elb_name (authz_record # rest) =
     (let w1 = emit w ''updating-elb.delete-txt-record''
                 [(''elb_name'', elb_name), (''host'', host authz_record)]
      in case change_txt_record env w1 ''DELETE'' (route53_zone_id authz_record)
                (validation_domain_name env (dns_challenge authz_record) (host authz_record))
                (validation env (dns_challenge authz_record) (acme_key env)) of
           (w2, Inl e) \<Rightarrow> (w2, Inl e)
         | (w2, Inr change_id) \<Rightarrow> cleanup env w2 elb_name rest)"

text \<open>
  \<^verbatim>\<open>update_elb\<close>. The parameters \<^verbatim>\<open>force_issue\<close>, \<^verbatim>\<open>listener\<close>, \<^verbatim>\<open>cert_only\<close> and
  \<^verbatim>\<open>create_listener\<close> are accepted and never read. An exception raised inside
  \<^verbatim>\<open>finally\<close> replaces the one the \<^verbatim>\<open>try\<close> block was leaving with.
\<close>

definition update_elb ::
  "env \<Rightarrow> world \<Rightarrow> bool \<Rightarrow> string \<Rightarrow> (string \<times> nat) list \<Rightarrow> string list \<Rightarrow> string \<Rightarrow>
     bool \<Rightarrow> bool \<Rightarrow> string \<Rightarrow> string \<Rightarrow> (world \<times> (error + unit)) option" where
  "update_elb env w force_issue elb_name listener hosts key_type cert_only create_listener
       fullchain_path privatekey_path =
     (let w1 = emit w ''updating-elb'' [(''elb_name'', elb_name)]
      in case (if key_type = ''rsa'' then Inr (generate_rsa_private_key env w1)
               else if key_type = ''ecdsa'' then Inr (generate_ecdsa_private_key env w1)
               else Inl (ValueError (''Invalid key_type: '' @ key_type))) of
           Inl e \<Rightarrow> Some (w1, Inl e)
         | Inr (w2, private_key) \<Rightarrow>
             (case open_w env w2 privatekey_path of
                (w3, Inl e) \<Rightarrow> Some (w3, Inl e)
              | (w3, Inr u) \<Rightarrow>
                  (let w4 = f_close
                              (f_write w3 privatekey_path
                                 (private_bytes env private_key PEM TraditionalOpenSSL NoEncryption))
                              privatekey_path
                   in case generate_csr private_key hosts of
                        Inl e \<Rightarrow> Some (w4, Inl e)
                      | Inr c \<Rightarrow>
                          (case try_body env w4 elb_name hosts c fullchain_path of
                             None \<Rightarrow> None
                           | Some (w5, authorizations, r) \<Rightarrow>
                               (case cleanup env w5 elb_name authorizations of
                                  (w6, Inl e) \<Rightarrow> Some (w6, Inl e)
                                | (w6, Inr u) \<Rightarrow> Some (w6, r))))))"

subsection \<open>All domain entries\<close>




subsection \<open>Reading a trace\<close>

text \<open>The record changes of one action that a trace holds, with what the provider answered.\<close>

fun upsert_of :: "string \<Rightarrow> event \<Rightarrow> (change_request \<times> (error + string)) list" where
  "upsert_of act (ChangeResourceRecordSets req r) = (if Action req = act then [(req, r)] else [])"
| "upsert_of act _ = []"

definition upserts :: "string \<Rightarrow> event list \<Rightarrow> (change_request \<times> (error + string)) list" where
  "upserts act evs = concat (map (upsert_of act) evs)"

fun succeeded :: "change_request \<times> (error + string) \<Rightarrow> bool" where
  "succeeded (req, Inr i) = True"
| "succeeded (req, Inl e) = False"

text \<open>Zone id, record name and value of a change.\<close>

definition target :: "change_request \<times> (error + string) \<Rightarrow> string option \<times> string \<times> string" where
  "target c = (HostedZoneId (fst c), rr_Name (fst c), rr_Value (fst c))"

text \<open>The zone id, record name and value that belong to an authorization record.\<close>

definition record_target :: "env \<Rightarrow> authorization_record \<Rightarrow> string option \<times> string \<times> string" where
  "record_target env a =
     (route53_zone_id a,
      validation_domain_name env (dns_challenge a) (host a),
      quoted (validation env (dns_challenge a) (acme_key env)))"

text \<open>Events of the file system, and the polling events of the propagation wait.\<close>

fun is_file :: "event \<Rightarrow> bool" where
  "is_file (OpenWrite p r) = True"
| "is_file (FileWrite p d) = True"
| "is_file (FileClose p) = True"
| "is_file _ = False"

fun is_poll :: "event \<Rightarrow> bool" where
  "is_poll (GetChange c r) = True"
| "is_poll (Sleep n) = True"
| "is_poll _ = False"

fun is_answer :: "event \<Rightarrow> bool" where
  "is_answer (AnswerChallenge c r a) = True"
| "is_answer _ = False"

fun is_request :: "event \<Rightarrow> bool" where
  "is_request (RequestDomainChallenges h r) = True"
| "is_request _ = False"

text \<open>The events that a step from \<open>w\<close> to \<open>w'\<close> added.\<close>

definition added :: "world \<Rightarrow> world \<Rightarrow> event list" where
  "added w w' = drop (length (trace w)) (trace w')"

text \<open>Trace, result and file content at the end of a run; a run that does not end has none.\<close>

definition run_trace :: "(world \<times> (error + unit)) option \<Rightarrow> event list" where
  "run_trace run = (case run of None \<Rightarrow> [] | Some (w, r) \<Rightarrow> trace w)"

definition run_result :: "(world \<times> (error + unit)) option \<Rightarrow> (error + unit) option" where
  "run_result run = (case run of None \<Rightarrow> None | Some (w, r) \<Rightarrow> Some r)"

definition run_file :: "(world \<times> (error + unit)) option \<Rightarrow> string \<Rightarrow> string option" where
  "run_file run path = (case run of None \<Rightarrow> None | Some (w, r) \<Rightarrow> files w path)"

text \<open>What \<^verbatim>\<open>update_elb\<close> does with the key \<open>k\<close> before the \<^verbatim>\<open>try\<close> block, when the key
  file opens.\<close>

definition key_events :: "env \<Rightarrow> string \<Rightarrow> string \<Rightarrow> private_key \<Rightarrow> event list" where
  "key_events env elb_name privatekey_path k =
     [Emit ''updating-elb'' [(''elb_name'', elb_name)],
      GenerateKey k,
      OpenWrite privatekey_path (Inr ()),
      FileWrite privatekey_path (private_bytes env k PEM TraditionalOpenSSL NoEncryption),
      FileClose privatekey_path]"

subsection \<open>A concrete account\<close>

text \<open>
  One zone \<^verbatim>\<open>example.com.\<close> with id \<^verbatim>\<open>Z1\<close>, an authority that offers an HTTP-01
  combination, a DNS-01 combination and a combination of both, the proof value
  \<^verbatim>\<open>tokenXYZ\<close>, and collaborators that never fail. The validation domain name is the ACME
  library's: the label \<^verbatim>\<open>_acme-challenge\<close> before the host.
\<close>

definition dns_cb :: challenge_body where
  "dns_cb = \<lparr> chall = DNS01 ''tokenXYZ'', chall_uri = ''chall/dns'' \<rparr>"

definition http_cb :: challenge_body where
  "http_cb = \<lparr> chall = HTTP01 ''tokenXYZ'', chall_uri = ''chall/http'' \<rparr>"

definition demo_authz :: "string \<Rightarrow> authorization" where
  "demo_authz h =
     \<lparr> authz_uri = ''authz/'' @ h,
       resolved_combinations = [[http_cb], [dns_cb], [http_cb, dns_cb]] \<rparr>"

definition demo_env :: env where
  "demo_env =
     \<lparr> acme_key = ''account-key'',
       public_key = (\<lambda>k. ''pub:'' @ k),
       request_domain_challenges = (\<lambda>tr h. Inr (demo_authz h)),
       answer_challenge = (\<lambda>tr c r. Inr ()),
       poll_and_request_issuance =
         (\<lambda>tr c azs. Inr \<lparr> cert_body = ''LEAF'', cert_uri = ''cert/1'' \<rparr>),
       fetch_chain = (\<lambda>tr cr. Inr [''INTERMEDIATE'']),
       validation_domain_name = (\<lambda>c h. ''_acme-challenge.'' @ h),
       validation = (\<lambda>c k. ''tokenXYZ''),
       response = (\<lambda>c k. ''response''),
       simple_verify = (\<lambda>tr r c h pk. Inr True),
       list_hosted_zones = (\<lambda>tr. [Inr [\<lparr> zone_Name = ''example.com.'', zone_Id = ''Z1'' \<rparr>]]),
       change_resource_record_sets = (\<lambda>tr req. Inr ''C1''),
       get_change = (\<lambda>tr c. Inr ''INSYNC''),
       rsa_generate = (\<lambda>tr e n. ''rsa-secret''),
       ec_generate = (\<lambda>tr c. ''ec-secret''),
       private_bytes = (\<lambda>k e f c. ''KEY-PEM''),
       dump_certificate = (\<lambda>c. ''PEM:'' @ c),
       open_write = (\<lambda>tr p. Inr ()) \<rparr>"

definition demo_world :: world where
  "demo_world = \<lparr> trace = [], files = [''fullchain.pem'' \<mapsto> ''OLD-CHAIN''] \<rparr>"

text \<open>The same account with a provider that refuses every DELETE.\<close>

definition delete_refused_env :: env where
  "delete_refused_env =
     demo_env\<lparr> change_resource_record_sets :=
       (\<lambda>tr req. if Action req = ''DELETE'' then Inl (ClientError ''Throttling'') else Inr ''C1'') \<rparr>"



text \<open>An authority that offers two single-challenge DNS-01 combinations.\<close>

definition two_dns_env :: env where
  "two_dns_env =
     demo_env\<lparr> request_domain_challenges :=
       (\<lambda>tr h. Inr \<lparr> authz_uri = ''authz/'' @ h,
                      resolved_combinations =
                        [[dns_cb], [\<lparr> chall = DNS01 ''tokenABC'', chall_uri = ''chall/dns2'' \<rparr>]] \<rparr>) \<rparr>"

text \<open>A local verification that does not match.\<close>

definition mismatch_env :: env where
  "mismatch_env = demo_env\<lparr> simple_verify := (\<lambda>tr r c h pk. Inr False) \<rparr>"

text \<open>A provider that reports \<^verbatim>\<open>PENDING\<close> at the first poll and \<^verbatim>\<open>INSYNC\<close> afterwards.\<close>

definition slow_env :: env where
  "slow_env =
     demo_env\<lparr> get_change :=
       (\<lambda>tr c. if list_ex is_poll tr then Inr ''INSYNC'' else Inr ''PENDING'') \<rparr>"

text \<open>The record of a published challenge for \<^verbatim>\<open>a.example.com\<close>.\<close>

definition demo_record :: authorization_record where
  "demo_record =
     \<lparr> host = ''a.example.com'', authz = demo_authz ''a.example.com'',
       dns_challenge = dns_cb, route53_change_id = ''C1'', route53_zone_id = Some ''Z1'' \<rparr>"



section \<open>Basic facts\<close>


lemma trace_record_event [simp]: "trace (record_event w e) = trace w @ [e]"
  by (simp add: record_event_def)

lemma files_record_event [simp]: "files (record_event w e) = files w"
  by (simp add: record_event_def)

lemma trace_emit [simp]: "trace (emit w n d) = trace w @ [Emit n d]"
  by (simp add: emit_def)

lemma files_emit [simp]: "files (emit w n d) = files w"
  by (simp add: emit_def)

lemma upserts_Nil [simp]: "upserts act [] = []"
  by (simp add: upserts_def)

lemma upserts_Cons [simp]: "upserts act (e # evs) = upsert_of act e @ upserts act evs"
  by (simp add: upserts_def)

lemma upserts_append [simp]: "upserts act (xs @ ys) = upserts act xs @ upserts act ys"
  by (simp add: upserts_def)

lemma upsert_of_poll: "is_poll e \<Longrightarrow> upsert_of act e = []"
  by (cases e) simp_all

lemma upserts_polls: "\<forall>e\<in>set evs. is_poll e \<Longrightarrow> upserts act evs = []"
  by (induction evs) (simp_all add: upsert_of_poll)

lemma poll_not_file: "is_poll e \<Longrightarrow> \<not> is_file e"
  by (cases e) simp_all

lemma poll_not_answer: "is_poll e \<Longrightarrow> \<not> is_answer e"
  by (cases e) simp_all

section \<open>The certificate signing request\<close>



section \<open>Zone resolution\<close>








section \<open>What each operation adds to the trace\<close>

lemma wait_polls_aux:
  assumes "wait_for_route53_change env w c = Some y"
  shows "\<exists>evs. trace (fst y) = trace w @ evs \<and> files (fst y) = files w \<and> (\<forall>e\<in>set evs. is_poll e)"
  using assms
proof (induction rule: wait_for_route53_change.raw_induct[rotated 1, consumes 1])
  case (1 wait env w c y)
  show ?case
  proof (cases "get_change env (trace w) c")
    case (Inl e)
    with 1(2) show ?thesis by auto
  next
    case (Inr status)
    show ?thesis
    proof (cases "status = ''INSYNC''")
      case True
      with Inr 1(2) show ?thesis by auto
    next
      case False
      with Inr 1(2) have
        "wait env (record_event (record_event w (GetChange c (Inr status))) (Sleep 5)) c
           = Some y" by simp
      from 1(1)[OF this] obtain evs where
        "trace (fst y) = trace w @ [GetChange c (Inr status), Sleep 5] @ evs"
        "files (fst y) = files w" "\<forall>e\<in>set evs. is_poll e" by auto
      then show ?thesis by (intro exI[of _ "[GetChange c (Inr status), Sleep 5] @ evs"]) auto
    qed
  qed
qed

lemma wait_polls:
  "wait_for_route53_change env w c = Some (w', r) \<Longrightarrow>
     \<exists>evs. trace w' = trace w @ evs \<and> files w' = files w \<and> (\<forall>e\<in>set evs. is_poll e)"
  using wait_polls_aux[of env w c "(w', r)"] by simp

lemma wait_insync:
  "get_change env (trace w) c = Inr ''INSYNC'' \<Longrightarrow>
   wait_for_route53_change env w c = Some (record_event w (GetChange c (Inr ''INSYNC'')), Inr ())"
  by (subst wait_for_route53_change.simps) simp

lemma start_dns_challenge_events:
  assumes "start_dns_challenge env w elb h = (w', r)"
  shows "\<exists>evs. trace w' = trace w @ evs \<and> files w' = files w \<and>
           (\<forall>e\<in>set evs. \<not> is_file e) \<and> upserts ''DELETE'' evs = [] \<and>
           map target (filter succeeded (upserts ''CREATE'' evs)) =
             (case r of Inl e \<Rightarrow> [] | Inr a \<Rightarrow> [record_target env a])"
  using assms
  unfolding start_dns_challenge_def find_zone_id_for_domain_def change_txt_record_def Let_def
  by (auto split: sum.splits list.splits simp: target_def record_target_def)

lemma start_all_events:
  "start_all env w elb hs auths = (w', auths', r) \<Longrightarrow>
     \<exists>evs new. trace w' = trace w @ evs \<and> files w' = files w \<and> auths' = auths @ new \<and>
           (\<forall>e\<in>set evs. \<not> is_file e) \<and> upserts ''DELETE'' evs = [] \<and>
           map target (filter succeeded (upserts ''CREATE'' evs)) = map (record_target env) new"
proof (induction hs arbitrary: w auths)
  case Nil
  then show ?case by simp
next
  case (Cons h hs)
  obtain w1 r1 where s: "start_dns_challenge env w elb h = (w1, r1)" by force
  from start_dns_challenge_events[OF s] obtain e1 where e1:
    "trace w1 = trace w @ e1" "files w1 = files w" "\<forall>e\<in>set e1. \<not> is_file e"
    "upserts ''DELETE'' e1 = []"
    "map target (filter succeeded (upserts ''CREATE'' e1)) =
       (case r1 of Inl e \<Rightarrow> [] | Inr a \<Rightarrow> [record_target env a])" by blast
  show ?case
  proof (cases r1)
    case (Inl e)
    with Cons.prems s e1 show ?thesis by auto
  next
    case (Inr a)
    with Cons.prems s have "start_all env w1 elb hs (auths @ [a]) = (w', auths', r)" by simp
    from Cons.IH[OF this] obtain e2 new where e2:
      "trace w' = trace w1 @ e2" "files w' = files w1" "auths' = (auths @ [a]) @ new"
      "\<forall>e\<in>set e2. \<not> is_file e" "upserts ''DELETE'' e2 = []"
      "map target (filter succeeded (upserts ''CREATE'' e2)) = map (record_target env) new"
      by blast
    show ?thesis
      by (intro exI[of _ "e1 @ e2"] exI[of _ "a # new"]) (use e1 e2 Inr in auto)
  qed
qed

lemma cleanup_events:
  "cleanup env w elb auths = (w', r) \<Longrightarrow>
     \<exists>evs. trace w' = trace w @ evs \<and> files w' = files w \<and>
           (\<forall>e\<in>set evs. \<not> is_file e) \<and> upserts ''CREATE'' evs = [] \<and>
           prefix (map target (upserts ''DELETE'' evs)) (map (record_target env) auths) \<and>
           (case r of
              Inr u \<Rightarrow> list_all succeeded (upserts ''DELETE'' evs) \<and>
                       map target (upserts ''DELETE'' evs) = map (record_target env) auths
            | Inl e \<Rightarrow> \<not> list_all succeeded (upserts ''DELETE'' evs))"
proof (induction auths arbitrary: w)
  case Nil
  then show ?case by auto
next
  case (Cons a rest)
  let ?w1 = "emit w ''updating-elb.delete-txt-record'' [(''elb_name'', elb), (''host'', host a)]"
  obtain w2 r2 where c: "change_txt_record env ?w1 ''DELETE'' (route53_zone_id a)
                (validation_domain_name env (dns_challenge a) (host a))
                (validation env (dns_challenge a) (acme_key env)) = (w2, r2)" by force
  then obtain req where req: "trace w2 = trace w @ [Emit ''updating-elb.delete-txt-record'' [(''elb_name'', elb), (''host'', host a)], ChangeResourceRecordSets req r2]"
     "files w2 = files w" "Action req = ''DELETE''" "target (req, r2) = record_target env a"
    by (auto simp: change_txt_record_def Let_def target_def record_target_def)
  show ?case
  proof (cases r2)
    case (Inl e)
    with Cons.prems c have "w' = w2" "r = Inl e" by (simp_all add: Let_def)
    with req Inl show ?thesis by auto
  next
    case (Inr cid)
    with Cons.prems c have "cleanup env w2 elb rest = (w', r)" by (simp add: Let_def)
    from Cons.IH[OF this] obtain e2 where e2:
      "trace w' = trace w2 @ e2" "files w' = files w2" "\<forall>e\<in>set e2. \<not> is_file e"
      "upserts ''CREATE'' e2 = []"
      "prefix (map target (upserts ''DELETE'' e2)) (map (record_target env) rest)"
      "(case r of
              Inr u \<Rightarrow> list_all succeeded (upserts ''DELETE'' e2) \<and>
                       map target (upserts ''DELETE'' e2) = map (record_target env) rest
            | Inl e \<Rightarrow> \<not> list_all succeeded (upserts ''DELETE'' e2))" by blast
    show ?thesis
      by (intro exI[of _ "[Emit ''updating-elb.delete-txt-record'' [(''elb_name'', elb), (''host'', host a)], ChangeResourceRecordSets req r2] @ e2"])
         (use req e2 Inr in \<open>auto split: sum.splits\<close>)
  qed
qed

lemma complete_dns_challenge_shape:
  assumes "complete_dns_challenge env w elb a = Some (w', r)"
  shows "\<exists>polls. (\<forall>e\<in>set polls. is_poll e) \<and> files w' = files w \<and>
     ((trace w' = trace w @ Emit ''updating-elb.wait-for-route53''
                    [(''elb_name'', elb), (''host'', host a)] # polls \<and> (\<exists>e. r = Inl e)) \<or>
      (\<exists>v. trace w' = trace w @ Emit ''updating-elb.wait-for-route53''
                    [(''elb_name'', elb), (''host'', host a)] # polls @
                 [Emit ''updating-elb.local-validation'' [(''elb_name'', elb), (''host'', host a)],
                  SimpleVerify (response env (dns_challenge a) (acme_key env))
                    (chall (dns_challenge a)) (host a) (public_key env (acme_key env)) v] \<and>
           v \<noteq> Inr True \<and>
           r = (case v of Inl e \<Rightarrow> Inl e | Inr b \<Rightarrow> Inl (ValueError ''Failed verification''))) \<or>
      (trace w' = trace w @ Emit ''updating-elb.wait-for-route53''
                    [(''elb_name'', elb), (''host'', host a)] # polls @
                 [Emit ''updating-elb.local-validation'' [(''elb_name'', elb), (''host'', host a)],
                  SimpleVerify (response env (dns_challenge a) (acme_key env))
                    (chall (dns_challenge a)) (host a) (public_key env (acme_key env)) (Inr True),
                  Emit ''updating-elb.answer-challenge'' [(''elb_name'', elb), (''host'', host a)],
                  AnswerChallenge (dns_challenge a)
                    (response env (dns_challenge a) (acme_key env)) r] \<and>
       simple_verify env
         (trace w @ Emit ''updating-elb.wait-for-route53''
                    [(''elb_name'', elb), (''host'', host a)] # polls @
                 [Emit ''updating-elb.local-validation'' [(''elb_name'', elb), (''host'', host a)]])
         (response env (dns_challenge a) (acme_key env))
         (chall (dns_challenge a)) (host a) (public_key env (acme_key env)) = Inr True))"
proof -
  let ?w1 = "emit w ''updating-elb.wait-for-route53'' [(''elb_name'', elb), (''host'', host a)]"
  from assms obtain w2 r2 where
    wt: "wait_for_route53_change env ?w1 (route53_change_id a) = Some (w2, r2)"
    by (auto simp: complete_dns_challenge_def Let_def split: option.splits)
  from wait_polls[OF wt] obtain polls where p:
    "trace w2 = trace w @ Emit ''updating-elb.wait-for-route53''
                    [(''elb_name'', elb), (''host'', host a)] # polls"
    "files w2 = files w" "\<forall>e\<in>set polls. is_poll e" by auto
  let ?resp = "response env (dns_challenge a) (acme_key env)"
  let ?w3 = "emit w2 ''updating-elb.local-validation'' [(''elb_name'', elb), (''host'', host a)]"
  let ?v = "simple_verify env (trace ?w3) ?resp (chall (dns_challenge a)) (host a)
              (public_key env (acme_key env))"
  show ?thesis
  proof (cases r2)
    case (Inl e)
    with assms wt have "w' = w2" "r = Inl e"
      by (simp_all add: complete_dns_challenge_def Let_def)
    with p show ?thesis by (intro exI[of _ polls]) simp
  next
    case (Inr u)
    show ?thesis
    proof (cases "?v = Inr True")
      case True
      with assms wt Inr have
        "trace w' = trace ?w3 @
           [SimpleVerify ?resp (chall (dns_challenge a)) (host a) (public_key env (acme_key env))
              (Inr True),
            Emit ''updating-elb.answer-challenge'' [(''elb_name'', elb), (''host'', host a)],
            AnswerChallenge (dns_challenge a) ?resp r]"
        "files w' = files w2"
        by (auto simp add: complete_dns_challenge_def Let_def)
      with p True show ?thesis by (intro exI[of _ polls]) simp
    next
      case False
      with assms wt Inr have
        "trace w' = trace ?w3 @
           [SimpleVerify ?resp (chall (dns_challenge a)) (host a) (public_key env (acme_key env)) ?v]"
        "files w' = files w2"
        "r = (case ?v of Inl e \<Rightarrow> Inl e | Inr b \<Rightarrow> Inl (ValueError ''Failed verification''))"
        by (auto simp add: complete_dns_challenge_def Let_def split: sum.splits if_splits)
      with p False show ?thesis
        by (intro exI[of _ polls] conjI disjI2 disjI1 exI[of _ ?v]) simp_all
    qed
  qed
qed

lemma complete_dns_challenge_events:
  assumes "complete_dns_challenge env w elb a = Some (w', r)"
  shows "\<exists>evs. trace w' = trace w @ evs \<and> files w' = files w \<and>
           (\<forall>e\<in>set evs. \<not> is_file e) \<and> (\<forall>act. upserts act evs = [])"
proof -
  from complete_dns_challenge_shape[OF assms] obtain polls where
    p: "\<forall>e\<in>set polls. is_poll e" and f: "files w' = files w" and
    t: "\<exists>tl. trace w' = trace w @ Emit ''updating-elb.wait-for-route53''
                    [(''elb_name'', elb), (''host'', host a)] # polls @ tl \<and>
             (\<forall>e\<in>set tl. \<not> is_file e) \<and> (\<forall>act. upserts act tl = [])"
    by (elim exE conjE disjE) (rule that, assumption, assumption, force)+
  from t obtain tl where tl:
    "trace w' = trace w @ Emit ''updating-elb.wait-for-route53''
                    [(''elb_name'', elb), (''host'', host a)] # polls @ tl"
    "\<forall>e\<in>set tl. \<not> is_file e" "\<forall>act. upserts act tl = []" by blast
  show ?thesis
    using p f tl
    by (intro exI[of _ "Emit ''updating-elb.wait-for-route53''
                    [(''elb_name'', elb), (''host'', host a)] # polls @ tl"])
       (auto simp: upserts_polls poll_not_file)
qed

lemma complete_all_events:
  "complete_all env w elb auths = Some (w', r) \<Longrightarrow>
     \<exists>evs. trace w' = trace w @ evs \<and> files w' = files w \<and>
           (\<forall>e\<in>set evs. \<not> is_file e) \<and> (\<forall>act. upserts act evs = [])"
proof (induction auths arbitrary: w)
  case Nil
  then show ?case by simp
next
  case (Cons a rest)
  from Cons.prems obtain w1 r1 where c: "complete_dns_challenge env w elb a = Some (w1, r1)"
    by (auto split: option.splits)
  from complete_dns_challenge_events[OF c] obtain e1 where e1:
    "trace w1 = trace w @ e1" "files w1 = files w" "\<forall>e\<in>set e1. \<not> is_file e"
    "\<forall>act. upserts act e1 = []" by blast
  show ?case
  proof (cases r1)
    case (Inl e)
    with Cons.prems c e1 show ?thesis by auto
  next
    case (Inr u)
    with Cons.prems c have "complete_all env w1 elb rest = Some (w', r)" by simp
    from Cons.IH[OF this] obtain e2 where
      "trace w' = trace w1 @ e2" "files w' = files w1" "\<forall>e\<in>set e2. \<not> is_file e"
      "\<forall>act. upserts act e2 = []" by blast
    with e1 show ?thesis by (intro exI[of _ "e1 @ e2"]) auto
  qed
qed

lemma request_certificate_events:
  assumes "request_certificate env w elb auths c = (w', r)"
  shows "\<exists>evs. trace w' = trace w @ evs \<and> files w' = files w \<and>
           (\<forall>e\<in>set evs. \<not> is_file e) \<and> (\<forall>act. upserts act evs = []) \<and>
           (\<forall>x. r = Inr x \<longrightarrow>
              (\<exists>pre cr certs.
                 evs = pre @ [PollAndRequestIssuance c (map authz auths) (Inr cr),
                              FetchChain cr (Inr certs)] \<and>
                 x = (dump_certificate env (cert_body cr),
                      join [CHR 0x0A] (map (dump_certificate env) certs))))"
  using assms unfolding request_certificate_def Let_def
  by (auto split: sum.splits)

lemma trace_f_write [simp]: "trace (f_write w p d) = trace w @ [FileWrite p d]"
  by (simp add: f_write_def)

lemma files_f_write [simp]:
  "files (f_write w p d) = (files w)(p \<mapsto> (case files w p of None \<Rightarrow> d | Some old \<Rightarrow> old @ d))"
  by (simp add: f_write_def)

lemma trace_f_close [simp]: "trace (f_close w p) = trace w @ [FileClose p]"
  by (simp add: f_close_def)

lemma files_f_close [simp]: "files (f_close w p) = files w"
  by (simp add: f_close_def)

lemma open_w_cases:
  assumes "open_w env w p = (w', r)"
  shows "(\<exists>e. r = Inl e \<and> trace w' = trace w @ [OpenWrite p (Inl e)] \<and> files w' = files w) \<or>
         (r = Inr () \<and> trace w' = trace w @ [OpenWrite p (Inr ())] \<and>
          files w' = (files w)(p \<mapsto> []))"
proof (cases "open_write env (trace w) p")
  case (Inl e)
  then have "open_w env w p = (record_event w (OpenWrite p (Inl e)), Inl e)"
    by (simp add: open_w_def Let_def)
  with assms have "w' = record_event w (OpenWrite p (Inl e))" "r = Inl e" by auto
  then show ?thesis by simp
next
  case (Inr u)
  then have "open_w env w p =
               ((record_event w (OpenWrite p (Inr ())))
                  \<lparr>files := (files (record_event w (OpenWrite p (Inr ()))))(p \<mapsto> [])\<rparr>, Inr ())"
    by (simp add: open_w_def Let_def)
  with assms have "w' = (record_event w (OpenWrite p (Inr ())))
                  \<lparr>files := (files (record_event w (OpenWrite p (Inr ()))))(p \<mapsto> [])\<rparr>"
    "r = Inr ()" by auto
  then show ?thesis by simp
qed

lemma try_body_events:
  assumes "try_body env w elb hosts c fp = Some (w', auths, r)"
  shows "\<exists>evs. trace w' = trace w @ evs \<and> upserts ''DELETE'' evs = [] \<and>
           map target (filter succeeded (upserts ''CREATE'' evs)) = map (record_target env) auths \<and>
           (((\<forall>e\<in>set evs. \<not> is_file e) \<and> files w' = files w \<and> (\<exists>e. r = Inl e)) \<or>
            (\<exists>pre cr certs x post.
               evs = pre @ [PollAndRequestIssuance c (map authz auths) (Inr cr),
                            FetchChain cr (Inr certs), OpenWrite fp x] @ post \<and>
               (\<forall>e\<in>set pre. \<not> is_file e) \<and>
               ((\<exists>e. x = Inl e \<and> r = Inl e \<and> post = [] \<and> files w' = files w) \<or>
                (x = Inr () \<and> r = Inr () \<and>
                 post = [FileWrite fp (dump_certificate env (cert_body cr)),
                         FileWrite fp (join [CHR 0x0A] (map (dump_certificate env) certs)),
                         FileClose fp] \<and>
                 files w' = (files w)(fp \<mapsto> dump_certificate env (cert_body cr) @
                                          join [CHR 0x0A] (map (dump_certificate env) certs))))))"
proof -
  obtain w1 as1 r1 where s: "start_all env w elb hosts [] = (w1, as1, r1)"
    by (metis prod_cases3)
  from start_all_events[OF s] obtain e1 where e1:
    "trace w1 = trace w @ e1" "files w1 = files w" "\<forall>e\<in>set e1. \<not> is_file e"
    "upserts ''DELETE'' e1 = []"
    "map target (filter succeeded (upserts ''CREATE'' e1)) = map (record_target env) as1"
    by auto
  show ?thesis
  proof (cases r1)
    case (Inl e)
    with assms s have "w' = w1" "auths = as1" "r = Inl e" by (simp_all add: try_body_def)
    with e1 show ?thesis by (intro exI[of _ e1]) simp
  next
    case r1: (Inr u1)
    with assms s obtain w2 r2 where c: "complete_all env w1 elb as1 = Some (w2, r2)"
      by (auto simp: try_body_def split: option.splits)
    from complete_all_events[OF c] obtain e2 where e2:
      "trace w2 = trace w1 @ e2" "files w2 = files w1" "\<forall>e\<in>set e2. \<not> is_file e"
      "\<forall>act. upserts act e2 = []" by blast
    show ?thesis
    proof (cases r2)
      case (Inl e)
      with assms s r1 c have "w' = w2" "auths = as1" "r = Inl e" by (simp_all add: try_body_def)
      with e1 e2 show ?thesis by (intro exI[of _ "e1 @ e2"]) auto
    next
      case r2: (Inr u2)
      obtain w3 r3 where q: "request_certificate env w2 elb as1 c = (w3, r3)" by force
      from request_certificate_events[OF q] obtain e3 where e3:
        "trace w3 = trace w2 @ e3" "files w3 = files w2" "\<forall>e\<in>set e3. \<not> is_file e"
        "\<forall>act. upserts act e3 = []"
        "\<forall>x. r3 = Inr x \<longrightarrow>
              (\<exists>pre cr certs.
                 e3 = pre @ [PollAndRequestIssuance c (map authz as1) (Inr cr),
                              FetchChain cr (Inr certs)] \<and>
                 x = (dump_certificate env (cert_body cr),
                      join [CHR 0x0A] (map (dump_certificate env) certs)))" by blast
      show ?thesis
      proof (cases r3)
        case (Inl e)
        with assms s r1 c r2 q have "w' = w3" "auths = as1" "r = Inl e"
          by (simp_all add: try_body_def)
        with e1 e2 e3 show ?thesis by (intro exI[of _ "e1 @ e2 @ e3"]) auto
      next
        case r3: (Inr x)
        with e3 obtain pre cr certs where pre:
          "e3 = pre @ [PollAndRequestIssuance c (map authz as1) (Inr cr),
                       FetchChain cr (Inr certs)]"
          "x = (dump_certificate env (cert_body cr),
                join [CHR 0x0A] (map (dump_certificate env) certs))" by blast
        obtain w4 r4 where o: "open_w env w3 fp = (w4, r4)" by force
        have u: "upserts ''DELETE'' (e1 @ e2 @ e3) = []"
                "map target (filter succeeded (upserts ''CREATE'' (e1 @ e2 @ e3))) =
                   map (record_target env) as1"
                "\<forall>e\<in>set (e1 @ e2 @ pre). \<not> is_file e"
          using e1 e2 e3 pre(1) by auto
        from open_w_cases[OF o] show ?thesis
        proof
          assume "\<exists>e. r4 = Inl e \<and> trace w4 = trace w3 @ [OpenWrite fp (Inl e)] \<and>
                      files w4 = files w3"
          then obtain e where e: "r4 = Inl e" "trace w4 = trace w3 @ [OpenWrite fp (Inl e)]"
            "files w4 = files w3" by blast
          with assms s r1 c r2 q r3 o pre(2) have "w' = w4" "auths = as1" "r = Inl e"
            by (simp_all add: try_body_def)
          have t: "trace w' = trace w @ (e1 @ e2 @ e3) @ [OpenWrite fp (Inl e)]"
               "files w' = files w"
            using \<open>w' = w4\<close> e e1 e2 e3 by simp_all
          have sh: "\<exists>pre' cr certs x post.
               (e1 @ e2 @ e3) @ [OpenWrite fp (Inl e)] =
                 pre' @ [PollAndRequestIssuance c (map authz auths) (Inr cr),
                            FetchChain cr (Inr certs), OpenWrite fp x] @ post \<and>
               (\<forall>e\<in>set pre'. \<not> is_file e) \<and>
               ((\<exists>e. x = Inl e \<and> r = Inl e \<and> post = [] \<and> files w' = files w) \<or>
                (x = Inr () \<and> r = Inr () \<and>
                 post = [FileWrite fp (dump_certificate env (cert_body cr)),
                         FileWrite fp (join [CHR 0x0A] (map (dump_certificate env) certs)),
                         FileClose fp] \<and>
                 files w' = (files w)(fp \<mapsto> dump_certificate env (cert_body cr) @
                                          join [CHR 0x0A] (map (dump_certificate env) certs))))"
            by (rule exI[of _ "e1 @ e2 @ pre"], rule exI[of _ cr], rule exI[of _ certs],
                rule exI[of _ "Inl e"], rule exI[of _ "[]"])
               (use pre(1) u(3) t(2) \<open>auths = as1\<close> \<open>r = Inl e\<close> in simp)
          show ?thesis
            using t(1) u(1,2) sh \<open>auths = as1\<close>
            by (intro exI[of _ "(e1 @ e2 @ e3) @ [OpenWrite fp (Inl e)]"])
               (simp del: upserts_append append_assoc
                     add: upserts_append[of _ "e1 @ e2 @ e3"])
        next
          assume a: "r4 = Inr () \<and> trace w4 = trace w3 @ [OpenWrite fp (Inr ())] \<and>
                     files w4 = (files w3)(fp \<mapsto> [])"
          with assms s r1 c r2 q r3 o pre(2) have
            "w' = f_close (f_write (f_write w4 fp (dump_certificate env (cert_body cr)))
                     fp (join [CHR 0x0A] (map (dump_certificate env) certs))) fp"
            "auths = as1" "r = Inr ()"
            by (simp_all add: try_body_def)
          let ?leaf = "dump_certificate env (cert_body cr)"
          let ?chain = "join [CHR 0x0A] (map (dump_certificate env) certs)"
          let ?post = "[FileWrite fp ?leaf, FileWrite fp ?chain, FileClose fp]"
          have t: "trace w' = trace w @ (e1 @ e2 @ e3) @ OpenWrite fp (Inr ()) # ?post"
               "files w' = (files w)(fp \<mapsto> ?leaf @ ?chain)"
            using \<open>w' = _\<close> a e1 e2 e3 by simp_all
          have sh: "\<exists>pre' cr certs x post.
               (e1 @ e2 @ e3) @ OpenWrite fp (Inr ()) # ?post =
                 pre' @ [PollAndRequestIssuance c (map authz auths) (Inr cr),
                            FetchChain cr (Inr certs), OpenWrite fp x] @ post \<and>
               (\<forall>e\<in>set pre'. \<not> is_file e) \<and>
               ((\<exists>e. x = Inl e \<and> r = Inl e \<and> post = [] \<and> files w' = files w) \<or>
                (x = Inr () \<and> r = Inr () \<and>
                 post = [FileWrite fp (dump_certificate env (cert_body cr)),
                         FileWrite fp (join [CHR 0x0A] (map (dump_certificate env) certs)),
                         FileClose fp] \<and>
                 files w' = (files w)(fp \<mapsto> dump_certificate env (cert_body cr) @
                                          join [CHR 0x0A] (map (dump_certificate env) certs))))"
            by (rule exI[of _ "e1 @ e2 @ pre"], rule exI[of _ cr], rule exI[of _ certs],
                rule exI[of _ "Inr ()"], rule exI[of _ ?post])
               (use pre(1) u(3) t(2) \<open>auths = as1\<close> \<open>r = Inr ()\<close> in simp)
          show ?thesis
            using t(1) u(1,2) sh \<open>auths = as1\<close>
            by (intro exI[of _ "(e1 @ e2 @ e3) @ OpenWrite fp (Inr ()) # ?post"])
               (simp del: upserts_append append_assoc
                     add: upserts_append[of _ "e1 @ e2 @ e3"])
        qed
      qed
    qed
  qed
qed

lemma update_elb_cases:
  assumes "update_elb env w fi elb l hosts kt co cl fp pp = Some (w', r)"
  shows "(kt \<noteq> ''rsa'' \<and> kt \<noteq> ''ecdsa'' \<and>
          trace w' = trace w @ [Emit ''updating-elb'' [(''elb_name'', elb)]] \<and>
          files w' = files w \<and> r = Inl (ValueError (''Invalid key_type: '' @ kt))) \<or>
         (\<exists>k e. trace w' = trace w @ [Emit ''updating-elb'' [(''elb_name'', elb)],
                                      GenerateKey k, OpenWrite pp (Inl e)] \<and>
                files w' = files w \<and> r = Inl e) \<or>
         (\<exists>k w4. trace w4 = trace w @ key_events env elb pp k \<and>
                 files w4 = (files w)(pp \<mapsto> private_bytes env k PEM TraditionalOpenSSL NoEncryption) \<and>
                 ((\<exists>e. generate_csr k hosts = Inl e \<and> w' = w4 \<and> r = Inl e) \<or>
                  (\<exists>c w5 auths rb rc.
                     generate_csr k hosts = Inr c \<and>
                     try_body env w4 elb hosts c fp = Some (w5, auths, rb) \<and>
                     cleanup env w5 elb auths = (w', rc) \<and>
                     r = (case rc of Inl e \<Rightarrow> Inl e | Inr u \<Rightarrow> rb))))"
proof (cases "kt = ''rsa'' \<or> kt = ''ecdsa''")
  case False
  with assms show ?thesis by (auto simp: update_elb_def Let_def)
next
  case True
  let ?w1 = "emit w ''updating-elb'' [(''elb_name'', elb)]"
  define g where "g = (if kt = ''rsa'' then generate_rsa_private_key env ?w1
                       else generate_ecdsa_private_key env ?w1)"
  obtain w2 k where g: "g = (w2, k)" by force
  have w2: "trace w2 = trace w @ [Emit ''updating-elb'' [(''elb_name'', elb)], GenerateKey k]"
           "files w2 = files w"
    using g unfolding g_def
    by (auto simp: generate_rsa_private_key_def generate_ecdsa_private_key_def Let_def
             split: if_splits)
  have sel: "(if kt = ''rsa'' then Inr (generate_rsa_private_key env ?w1)
              else if kt = ''ecdsa'' then Inr (generate_ecdsa_private_key env ?w1)
              else Inl (ValueError (''Invalid key_type: '' @ kt))) = Inr (w2, k)"
    using True g unfolding g_def by auto
  obtain w3 r3 where o: "open_w env w2 pp = (w3, r3)" by force
  from open_w_cases[OF o] show ?thesis
  proof
    assume "\<exists>e. r3 = Inl e \<and> trace w3 = trace w2 @ [OpenWrite pp (Inl e)] \<and> files w3 = files w2"
    then obtain e where e: "r3 = Inl e" "trace w3 = trace w2 @ [OpenWrite pp (Inl e)]"
      "files w3 = files w2" by blast
    from assms have "w' = w3" "r = Inl e"
      unfolding update_elb_def Let_def sel using o e(1) by simp_all
    with e w2 have "\<exists>k e. trace w' = trace w @ [Emit ''updating-elb'' [(''elb_name'', elb)],
                                      GenerateKey k, OpenWrite pp (Inl e)] \<and>
                files w' = files w \<and> r = Inl e" by auto
    then show ?thesis by blast
  next
    assume a: "r3 = Inr () \<and> trace w3 = trace w2 @ [OpenWrite pp (Inr ())] \<and>
               files w3 = (files w2)(pp \<mapsto> [])"
    let ?pem = "private_bytes env k PEM TraditionalOpenSSL NoEncryption"
    let ?w4 = "f_close (f_write w3 pp ?pem) pp"
    have w4: "trace ?w4 = trace w @ key_events env elb pp k"
             "files ?w4 = (files w)(pp \<mapsto> ?pem)"
      using a w2 by (simp_all add: key_events_def)
    have run: "(case generate_csr k hosts of
                  Inl e \<Rightarrow> Some (?w4, Inl e)
                | Inr c \<Rightarrow>
                    (case try_body env ?w4 elb hosts c fp of
                       None \<Rightarrow> None
                     | Some (w5, authorizations, rb) \<Rightarrow>
                         (case cleanup env w5 elb authorizations of
                            (w6, Inl e) \<Rightarrow> Some (w6, Inl e)
                          | (w6, Inr u) \<Rightarrow> Some (w6, rb)))) = Some (w', r)"
      using assms unfolding update_elb_def Let_def sel using o a by simp
    have "(\<exists>e. generate_csr k hosts = Inl e \<and> w' = ?w4 \<and> r = Inl e) \<or>
          (\<exists>c w5 auths rb rc.
                     generate_csr k hosts = Inr c \<and>
                     try_body env ?w4 elb hosts c fp = Some (w5, auths, rb) \<and>
                     cleanup env w5 elb auths = (w', rc) \<and>
                     r = (case rc of Inl e \<Rightarrow> Inl e | Inr u \<Rightarrow> rb))"
      using run by (auto split: sum.splits option.splits prod.splits)
    with w4 show ?thesis by blast
  qed
qed

section \<open>Runs of the concrete account\<close>

lemma demo_env_fields [simp]:
  "acme_key demo_env = ''account-key''"
  "public_key demo_env = (\<lambda>k. ''pub:'' @ k)"
  "request_domain_challenges demo_env = (\<lambda>tr h. Inr (demo_authz h))"
  "answer_challenge demo_env = (\<lambda>tr c r. Inr ())"
  "poll_and_request_issuance demo_env =
     (\<lambda>tr c azs. Inr \<lparr> cert_body = ''LEAF'', cert_uri = ''cert/1'' \<rparr>)"
  "fetch_chain demo_env = (\<lambda>tr cr. Inr [''INTERMEDIATE''])"
  "validation_domain_name demo_env = (\<lambda>c h. ''_acme-challenge.'' @ h)"
  "validation demo_env = (\<lambda>c k. ''tokenXYZ'')"
  "response demo_env = (\<lambda>c k. ''response'')"
  "simple_verify demo_env = (\<lambda>tr r c h pk. Inr True)"
  "list_hosted_zones demo_env = (\<lambda>tr. [Inr [\<lparr> zone_Name = ''example.com.'', zone_Id = ''Z1'' \<rparr>]])"
  "change_resource_record_sets demo_env = (\<lambda>tr req. Inr ''C1'')"
  "get_change demo_env = (\<lambda>tr c. Inr ''INSYNC'')"
  "rsa_generate demo_env = (\<lambda>tr e n. ''rsa-secret'')"
  "ec_generate demo_env = (\<lambda>tr c. ''ec-secret'')"
  "private_bytes demo_env = (\<lambda>k e f c. ''KEY-PEM'')"
  "dump_certificate demo_env = (\<lambda>c. ''PEM:'' @ c)"
  "open_write demo_env = (\<lambda>tr p. Inr ())"
  by (simp_all add: demo_env_def)

lemma find_dns_challenge_demo [simp]: "find_dns_challenge (demo_authz h) = [dns_cb]"
  by (simp add: find_dns_challenge_def demo_authz_def dns_cb_def http_cb_def)

lemma demo_zone [simp]:
  "scan_pages [Inr [\<lparr> zone_Name = ''example.com.'', zone_Id = ''Z1'' \<rparr>]] ''a.example.com''
     = Inr (Some ''Z1'')"
  "scan_pages [Inr [\<lparr> zone_Name = ''example.com.'', zone_Id = ''Z1'' \<rparr>]] ''b.example.com''
     = Inr (Some ''Z1'')"
  by (simp_all add: zone_matches_def endswith_def)

lemmas run_defs =
  update_elb_def try_body_def start_dns_challenge_def complete_dns_challenge_def
  request_certificate_def change_txt_record_def find_zone_id_for_domain_def
  generate_rsa_private_key_def generate_ecdsa_private_key_def generate_csr_def
  open_w_def Let_def wait_insync run_trace_def run_result_def run_file_def
  zone_matches_def endswith_def



lemma refused_run_two:
  "run_result (update_elb delete_refused_env demo_world False ''elb'' []
      [''a.example.com'', ''b.example.com''] ''rsa''
      False False ''fullchain.pem'' ''privatekey.pem'') = Some (Inl (ClientError ''Throttling''))"
  "run_file (update_elb delete_refused_env demo_world False ''elb'' []
      [''a.example.com'', ''b.example.com''] ''rsa''
      False False ''fullchain.pem'' ''privatekey.pem'') ''fullchain.pem'' = Some ''PEM:LEAFPEM:INTERMEDIATE''"
  "map target (upserts ''DELETE'' (run_trace (update_elb delete_refused_env demo_world False ''elb'' []
      [''a.example.com'', ''b.example.com''] ''rsa''
      False False ''fullchain.pem'' ''privatekey.pem''))) =
     [(Some ''Z1'', ''_acme-challenge.a.example.com'', quoted ''tokenXYZ'')]"
  "map target (filter succeeded (upserts ''CREATE'' (run_trace (update_elb delete_refused_env demo_world False ''elb'' []
      [''a.example.com'', ''b.example.com''] ''rsa''
      False False ''fullchain.pem'' ''privatekey.pem'')))) =
     [(Some ''Z1'', ''_acme-challenge.a.example.com'', quoted ''tokenXYZ''),
      (Some ''Z1'', ''_acme-challenge.b.example.com'', quoted ''tokenXYZ'')]"
  by (simp_all add: run_defs delete_refused_env_def demo_world_def target_def)

section \<open>Cleanup\<close>

lemma upserts_key_events [simp]: "upserts act (key_events env elb pp k) = []"
  by (simp add: key_events_def)

lemma failed_is_last:
  "list_all P ds \<Longrightarrow> \<not> P x \<Longrightarrow> ds' @ x # rest = ds @ [y] \<Longrightarrow> rest = [] \<and> x = y \<and> ds' = ds"
  by (induction ds arbitrary: ds') (auto simp: Cons_eq_append_conv append_eq_Cons_conv)

lemma cleanup_failed:
  "cleanup env w elb auths = (w', Inl e) \<Longrightarrow>
     \<exists>evs ds req. trace w' = trace w @ evs \<and> upserts ''DELETE'' evs = ds @ [(req, Inl e)] \<and>
        list_all succeeded ds \<and> evs \<noteq> [] \<and> last evs = ChangeResourceRecordSets req (Inl e)"
proof (induction auths arbitrary: w)
  case Nil
  then show ?case by simp
next
  case (Cons a rest)
  let ?em = "Emit ''updating-elb.delete-txt-record'' [(''elb_name'', elb), (''host'', host a)]"
  let ?w1 = "emit w ''updating-elb.delete-txt-record'' [(''elb_name'', elb), (''host'', host a)]"
  obtain w2 r2 where c: "change_txt_record env ?w1 ''DELETE'' (route53_zone_id a)
                (validation_domain_name env (dns_challenge a) (host a))
                (validation env (dns_challenge a) (acme_key env)) = (w2, r2)" by force
  then obtain req where req:
    "trace w2 = trace w @ [?em, ChangeResourceRecordSets req r2]" "Action req = ''DELETE''"
    by (auto simp: change_txt_record_def Let_def)
  show ?case
  proof (cases r2)
    case (Inl e2)
    with Cons.prems c have "w' = w2" "e2 = e" by (simp_all add: Let_def)
    with req Inl show ?thesis
      by (intro exI[of _ "[?em, ChangeResourceRecordSets req r2]"] exI[of _ "[]"] exI[of _ req])
         simp
  next
    case (Inr cid)
    with Cons.prems c have "cleanup env w2 elb rest = (w', Inl e)" by (simp add: Let_def)
    from Cons.IH[OF this] obtain e2 ds rq where e2:
      "trace w' = trace w2 @ e2" "upserts ''DELETE'' e2 = ds @ [(rq, Inl e)]"
      "list_all succeeded ds" "e2 \<noteq> []" "last e2 = ChangeResourceRecordSets rq (Inl e)"
      by blast
    with req Inr show ?thesis
      by (intro exI[of _ "[?em, ChangeResourceRecordSets req r2] @ e2"]
                exI[of _ "(req, r2) # ds"] exI[of _ rq])
         simp
  qed
qed

lemma update_elb_upserts:
  assumes "update_elb env w fi elb l hosts kt co cl fp pp = Some (w', r)"
  shows "\<exists>evs. trace w' = trace w @ evs \<and>
           prefix (map target (upserts ''DELETE'' evs))
                  (map target (filter succeeded (upserts ''CREATE'' evs))) \<and>
           (list_all succeeded (upserts ''DELETE'' evs) \<longrightarrow>
              map target (upserts ''DELETE'' evs) =
              map target (filter succeeded (upserts ''CREATE'' evs))) \<and>
           (\<forall>ds req e rest. upserts ''DELETE'' evs = ds @ (req, Inl e) # rest \<longrightarrow>
              rest = [] \<and> r = Inl e \<and> evs \<noteq> [] \<and>
              last evs = ChangeResourceRecordSets req (Inl e))"
proof -
  from update_elb_cases[OF assms] consider
    (quiet) evs where "trace w' = trace w @ evs" "\<forall>act. upserts act evs = []"
  | (ran) k w4 c w5 auths rb rc where
      "trace w4 = trace w @ key_events env elb pp k"
      "try_body env w4 elb hosts c fp = Some (w5, auths, rb)"
      "cleanup env w5 elb auths = (w', rc)"
      "r = (case rc of Inl e \<Rightarrow> Inl e | Inr u \<Rightarrow> rb)"
  proof (elim disjE exE conjE)
    assume "trace w' = trace w @ [Emit ''updating-elb'' [(''elb_name'', elb)]]"
    then show ?thesis if "\<And>evs. trace w' = trace w @ evs \<Longrightarrow> \<forall>act. upserts act evs = [] \<Longrightarrow> thesis"
      using that by simp
  next
    fix k e
    assume "trace w' = trace w @ [Emit ''updating-elb'' [(''elb_name'', elb)],
                                      GenerateKey k, OpenWrite pp (Inl e)]"
    then show ?thesis if "\<And>evs. trace w' = trace w @ evs \<Longrightarrow> \<forall>act. upserts act evs = [] \<Longrightarrow> thesis"
      using that by simp
  next
    fix k w4 e
    assume "trace w4 = trace w @ key_events env elb pp k" "w' = w4"
    then show ?thesis if "\<And>evs. trace w' = trace w @ evs \<Longrightarrow> \<forall>act. upserts act evs = [] \<Longrightarrow> thesis"
      using that[of "key_events env elb pp k"] by simp
  next
    fix k w4 c w5 auths rb rc
    assume "trace w4 = trace w @ key_events env elb pp k"
      "try_body env w4 elb hosts c fp = Some (w5, auths, rb)"
      "cleanup env w5 elb auths = (w', rc)"
      "r = (case rc of Inl e \<Rightarrow> Inl e | Inr u \<Rightarrow> rb)"
    then show ?thesis
      if "\<And>w4 k c w5 auths rb rc. trace w4 = trace w @ key_events env elb pp k \<Longrightarrow>
            try_body env w4 elb hosts c fp = Some (w5, auths, rb) \<Longrightarrow>
            cleanup env w5 elb auths = (w', rc) \<Longrightarrow>
            r = (case rc of Inl e \<Rightarrow> Inl e | Inr u \<Rightarrow> rb) \<Longrightarrow> thesis"
      using that by blast
  qed
  then show ?thesis
  proof cases
    case quiet
    then show ?thesis by (intro exI[of _ evs]) simp
  next
    case ran
    from try_body_events[OF ran(2)] obtain eb where eb:
      "trace w5 = trace w4 @ eb" "upserts ''DELETE'' eb = []"
      "map target (filter succeeded (upserts ''CREATE'' eb)) = map (record_target env) auths"
      by blast
    from cleanup_events[OF ran(3)] obtain ec where ec:
      "trace w' = trace w5 @ ec" "upserts ''CREATE'' ec = []"
      "prefix (map target (upserts ''DELETE'' ec)) (map (record_target env) auths)"
      "case rc of
              Inr u \<Rightarrow> list_all succeeded (upserts ''DELETE'' ec) \<and>
                       map target (upserts ''DELETE'' ec) = map (record_target env) auths
            | Inl e \<Rightarrow> \<not> list_all succeeded (upserts ''DELETE'' ec)" by blast
    let ?evs = "key_events env elb pp k @ eb @ ec"
    have t: "trace w' = trace w @ ?evs" using ran(1) eb(1) ec(1) by simp
    have d: "upserts ''DELETE'' ?evs = upserts ''DELETE'' ec" using eb(2) by simp
    have cr: "map target (filter succeeded (upserts ''CREATE'' ?evs)) = map (record_target env) auths"
      using eb(3) ec(2) by simp
    have p1: "prefix (map target (upserts ''DELETE'' ?evs))
                  (map target (filter succeeded (upserts ''CREATE'' ?evs)))"
      unfolding d cr by (rule ec(3))
    have p2: "list_all succeeded (upserts ''DELETE'' ?evs) \<longrightarrow>
              map target (upserts ''DELETE'' ?evs) =
              map target (filter succeeded (upserts ''CREATE'' ?evs))"
      unfolding d cr using ec(4) by (cases rc) simp_all
    have p3: "\<forall>ds req e rest. upserts ''DELETE'' ?evs = ds @ (req, Inl e) # rest \<longrightarrow>
              rest = [] \<and> r = Inl e \<and> ?evs \<noteq> [] \<and>
              last ?evs = ChangeResourceRecordSets req (Inl e)"
    proof (intro allI impI)
      fix ds req e rest
      assume a: "upserts ''DELETE'' ?evs = ds @ (req, Inl e) # rest"
      then have a': "upserts ''DELETE'' ec = ds @ (req, Inl e) # rest" unfolding d .
      show "rest = [] \<and> r = Inl e \<and> ?evs \<noteq> [] \<and>
            last ?evs = ChangeResourceRecordSets req (Inl e)"
      proof (cases rc)
        case (Inr u)
        with ec(4) a' show ?thesis by simp
      next
        case (Inl e0)
        from cleanup_failed[OF ran(3)[unfolded Inl]] obtain ec' ds0 rq where f:
          "trace w' = trace w5 @ ec'" "upserts ''DELETE'' ec' = ds0 @ [(rq, Inl e0)]"
          "list_all succeeded ds0" "ec' \<noteq> []" "last ec' = ChangeResourceRecordSets rq (Inl e0)"
          by blast
        from f(1) ec(1) have same: "ec' = ec" by simp
        from a' f(2) same have "ds @ (req, Inl e) # rest = ds0 @ [(rq, Inl e0)]" by simp
        from failed_is_last[OF f(3) _ this] have "rest = []" "(req, Inl e) = (rq, Inl e0)"
          by simp_all
        with f(4,5) same Inl ran(4) show ?thesis by simp
      qed
    qed
    from t p1 p2 p3 show ?thesis by blast
  qed
qed

lemma run_some:
  "run_result run = Some r \<Longrightarrow> \<exists>w'. run = Some (w', r) \<and> run_trace run = trace w'"
  by (auto simp: run_result_def run_trace_def split: option.splits)

lemma refused_run_two_deletes:
  "upserts ''DELETE'' (run_trace (update_elb delete_refused_env demo_world False ''elb'' []
      [''a.example.com'', ''b.example.com''] ''rsa''
      False False ''fullchain.pem'' ''privatekey.pem'')) =
     [(\<lparr> HostedZoneId = Some ''Z1'', Action = ''DELETE'',
         rr_Name = ''_acme-challenge.a.example.com'', rr_Type = ''TXT'',
         rr_TTL = 30, rr_Value = quoted ''tokenXYZ'' \<rparr>, Inl (ClientError ''Throttling''))]"
  by (simp add: run_defs delete_refused_env_def demo_world_def DNS_TTL_def)




text \<open>
  C4, amended. In every run of \<^verbatim>\<open>update_elb\<close> that ends, a DELETE upsert that raises is
  the last DELETE upsert and the last event of the run: no DELETE is attempted for the
  records accumulated after it, and \<^verbatim>\<open>update_elb\<close> raises that error.
\<close>

theorem update_elb_failed_delete_ends_cleanup:
  assumes "update_elb env w force_issue elb_name listener hosts key_type cert_only
             create_listener fullchain_path privatekey_path = Some (w', r)"
  shows "\<exists>evs. trace w' = trace w @ evs \<and>
           (\<forall>ds req e rest. upserts ''DELETE'' evs = ds @ (req, Inl e) # rest \<longrightarrow>
              rest = [] \<and> r = Inl e \<and> evs \<noteq> [] \<and>
              last evs = ChangeResourceRecordSets req (Inl e))"
  using update_elb_upserts[OF assms] by blast

text \<open>C4, the run for two hosts with a provider that refuses the DELETE.\<close>

theorem update_elb_failed_delete_ends_cleanup_witness:
  "upserts ''DELETE'' (run_trace (update_elb delete_refused_env demo_world False ''elb'' []
      [''a.example.com'', ''b.example.com''] ''rsa''
      False False ''fullchain.pem'' ''privatekey.pem'')) =
     [] @ (\<lparr> HostedZoneId = Some ''Z1'', Action = ''DELETE'',
            rr_Name = ''_acme-challenge.a.example.com'', rr_Type = ''TXT'',
            rr_TTL = 30, rr_Value = quoted ''tokenXYZ'' \<rparr>, Inl (ClientError ''Throttling'')) # [] \<and>
   run_result (update_elb delete_refused_env demo_world False ''elb'' []
      [''a.example.com'', ''b.example.com''] ''rsa''
      False False ''fullchain.pem'' ''privatekey.pem'') = Some (Inl (ClientError ''Throttling'')) \<and>
   last (run_trace (update_elb delete_refused_env demo_world False ''elb'' []
      [''a.example.com'', ''b.example.com''] ''rsa''
      False False ''fullchain.pem'' ''privatekey.pem'')) =
     ChangeResourceRecordSets
       \<lparr> HostedZoneId = Some ''Z1'', Action = ''DELETE'',
         rr_Name = ''_acme-challenge.a.example.com'', rr_Type = ''TXT'',
         rr_TTL = 30, rr_Value = quoted ''tokenXYZ'' \<rparr> (Inl (ClientError ''Throttling''))"
proof -
  let ?run = "update_elb delete_refused_env demo_world False ''elb'' []
      [''a.example.com'', ''b.example.com''] ''rsa''
      False False ''fullchain.pem'' ''privatekey.pem''"
  let ?req = "\<lparr> HostedZoneId = Some ''Z1'', Action = ''DELETE'',
         rr_Name = ''_acme-challenge.a.example.com'', rr_Type = ''TXT'',
         rr_TTL = 30, rr_Value = quoted ''tokenXYZ'' \<rparr>"
  from run_some[OF refused_run_two(1)] obtain w' where
    w': "?run = Some (w', Inl (ClientError ''Throttling''))" "run_trace ?run = trace w'" by blast
  from update_elb_failed_delete_ends_cleanup[OF w'(1)] obtain evs where e:
    "trace w' = trace demo_world @ evs"
    "\<forall>ds req e rest. upserts ''DELETE'' evs = ds @ (req, Inl e) # rest \<longrightarrow>
              rest = [] \<and> Inl (ClientError ''Throttling'') = (Inl e :: error + unit) \<and> evs \<noteq> [] \<and>
              last evs = ChangeResourceRecordSets req (Inl e)" by blast
  from e(1) w'(2) have evs: "evs = run_trace ?run" by (simp add: demo_world_def)
  have d: "upserts ''DELETE'' evs = [] @ (?req, Inl (ClientError ''Throttling'')) # []"
    unfolding evs by (simp add: refused_run_two_deletes)
  from e(2) d have "last evs = ChangeResourceRecordSets ?req (Inl (ClientError ''Throttling''))"
    by blast
  with d refused_run_two(1) show ?thesis unfolding evs by simp
qed

text \<open>
  C4, as stated: after a DELETE that raises, the remaining records are still attempted.
  In the run for two hosts the DELETE for the first record raises; the record of
  \<^verbatim>\<open>b.example.com\<close> was created and no DELETE is issued for it.
\<close>

theorem update_elb_failed_delete_counterexample:
  "\<not> list_all succeeded (upserts ''DELETE''
       (run_trace (update_elb delete_refused_env demo_world False ''elb'' []
          [''a.example.com'', ''b.example.com''] ''rsa''
          False False ''fullchain.pem'' ''privatekey.pem''))) \<and>
   (Some ''Z1'', ''_acme-challenge.b.example.com'', quoted ''tokenXYZ'') \<in>
     set (map target (filter succeeded (upserts ''CREATE''
       (run_trace (update_elb delete_refused_env demo_world False ''elb'' []
          [''a.example.com'', ''b.example.com''] ''rsa''
          False False ''fullchain.pem'' ''privatekey.pem''))))) \<and>
   (Some ''Z1'', ''_acme-challenge.b.example.com'', quoted ''tokenXYZ'') \<notin>
     set (map target (upserts ''DELETE''
       (run_trace (update_elb delete_refused_env demo_world False ''elb'' []
          [''a.example.com'', ''b.example.com''] ''rsa''
          False False ''fullchain.pem'' ''privatekey.pem''))))"
  by (simp add: refused_run_two(4) refused_run_two_deletes target_def)

section \<open>The loop over the domain entries\<close>







section \<open>Completing a challenge\<close>

lemma list_ex_polls_answer: "\<forall>e\<in>set polls. is_poll e \<Longrightarrow> \<not> list_ex is_answer polls"
  by (induction polls) (auto simp: poll_not_answer)

lemma polls_no_verify: "\<forall>e\<in>set polls. is_poll e \<Longrightarrow> SimpleVerify a b c d x \<notin> set polls"
  by auto

text \<open>
  C5. In every call of \<^verbatim>\<open>complete_dns_challenge\<close> that returns, the response is submitted
  to the authority only directly after a local verification of that response against the
  challenge, the host and the account's public key has returned true, and it is submitted
  at most once; when the local verification returns false the call raises
  \<^verbatim>\<open>ValueError("Failed verification")\<close> and nothing is submitted.
\<close>

theorem complete_dns_challenge_verifies_first:
  assumes "complete_dns_challenge env w elb_name authz_record = Some (w', r)"
  shows "\<exists>evs. trace w' = trace w @ evs \<and>
     (list_ex is_answer evs \<longrightarrow>
        (\<exists>pre. evs = pre @
           [SimpleVerify (response env (dns_challenge authz_record) (acme_key env))
              (chall (dns_challenge authz_record)) (host authz_record)
              (public_key env (acme_key env)) (Inr True),
            Emit ''updating-elb.answer-challenge''
              [(''elb_name'', elb_name), (''host'', host authz_record)],
            AnswerChallenge (dns_challenge authz_record)
              (response env (dns_challenge authz_record) (acme_key env)) r] \<and>
           \<not> list_ex is_answer pre \<and>
           simple_verify env (trace w @ pre)
             (response env (dns_challenge authz_record) (acme_key env))
             (chall (dns_challenge authz_record)) (host authz_record)
             (public_key env (acme_key env)) = Inr True)) \<and>
     (\<forall>rs c h k. SimpleVerify rs c h k (Inr False) \<in> set evs \<longrightarrow>
        r = Inl (ValueError ''Failed verification'') \<and> \<not> list_ex is_answer evs)"
proof -
  let ?e1 = "Emit ''updating-elb.wait-for-route53''
               [(''elb_name'', elb_name), (''host'', host authz_record)]"
  let ?e2 = "Emit ''updating-elb.local-validation''
               [(''elb_name'', elb_name), (''host'', host authz_record)]"
  let ?R = "response env (dns_challenge authz_record) (acme_key env)"
  let ?V = "SimpleVerify ?R (chall (dns_challenge authz_record)) (host authz_record)
              (public_key env (acme_key env))"
  from complete_dns_challenge_shape[OF assms] obtain polls where
    p: "\<forall>e\<in>set polls. is_poll e" and
    s: "(trace w' = trace w @ ?e1 # polls \<and> (\<exists>e. r = Inl e)) \<or>
        (\<exists>v. trace w' = trace w @ ?e1 # polls @ [?e2, ?V v] \<and> v \<noteq> Inr True \<and>
             r = (case v of Inl e \<Rightarrow> Inl e | Inr b \<Rightarrow> Inl (ValueError ''Failed verification''))) \<or>
        (trace w' = trace w @ ?e1 # polls @
           [?e2, ?V (Inr True),
            Emit ''updating-elb.answer-challenge''
              [(''elb_name'', elb_name), (''host'', host authz_record)],
            AnswerChallenge (dns_challenge authz_record) ?R r] \<and>
         simple_verify env (trace w @ ?e1 # polls @ [?e2]) ?R
           (chall (dns_challenge authz_record)) (host authz_record)
           (public_key env (acme_key env)) = Inr True)"
    by blast
  note na = list_ex_polls_answer[OF p] and nv = polls_no_verify[OF p]
  from s show ?thesis
  proof (elim disjE exE conjE)
    fix e
    assume t: "trace w' = trace w @ ?e1 # polls"
    show ?thesis
      by (rule exI[of _ "?e1 # polls"]) (use t na nv in simp)
  next
    fix v
    assume t: "trace w' = trace w @ ?e1 # polls @ [?e2, ?V v]" and v: "v \<noteq> Inr True"
       and r: "r = (case v of Inl e \<Rightarrow> Inl e | Inr b \<Rightarrow> Inl (ValueError ''Failed verification''))"
    show ?thesis
      by (rule exI[of _ "?e1 # polls @ [?e2, ?V v]"]) (use t v r na nv in auto)
  next
    assume t: "trace w' = trace w @ ?e1 # polls @
           [?e2, ?V (Inr True),
            Emit ''updating-elb.answer-challenge''
              [(''elb_name'', elb_name), (''host'', host authz_record)],
            AnswerChallenge (dns_challenge authz_record) ?R r]"
       and sv: "simple_verify env (trace w @ ?e1 # polls @ [?e2]) ?R
           (chall (dns_challenge authz_record)) (host authz_record)
           (public_key env (acme_key env)) = Inr True"
    let ?evs = "?e1 # polls @
           [?e2, ?V (Inr True),
            Emit ''updating-elb.answer-challenge''
              [(''elb_name'', elb_name), (''host'', host authz_record)],
            AnswerChallenge (dns_challenge authz_record) ?R r]"
    have a: "\<exists>pre. ?evs = pre @
           [?V (Inr True),
            Emit ''updating-elb.answer-challenge''
              [(''elb_name'', elb_name), (''host'', host authz_record)],
            AnswerChallenge (dns_challenge authz_record) ?R r] \<and>
           \<not> list_ex is_answer pre \<and>
           simple_verify env (trace w @ pre) ?R
             (chall (dns_challenge authz_record)) (host authz_record)
             (public_key env (acme_key env)) = Inr True"
      by (rule exI[of _ "?e1 # polls @ [?e2]"]) (use sv na in simp)
    have b: "\<forall>rs c h k. SimpleVerify rs c h k (Inr False) \<notin> set ?evs"
      using nv by simp
    from t a b show ?thesis by blast
  qed
qed

lemma mismatch_run:
  "run_result (complete_dns_challenge mismatch_env demo_world ''elb'' demo_record)
     = Some (Inl (ValueError ''Failed verification''))"
  "run_trace (complete_dns_challenge mismatch_env demo_world ''elb'' demo_record) =
     [Emit ''updating-elb.wait-for-route53'' [(''elb_name'', ''elb''), (''host'', ''a.example.com'')],
      GetChange ''C1'' (Inr ''INSYNC''),
      Emit ''updating-elb.local-validation'' [(''elb_name'', ''elb''), (''host'', ''a.example.com'')],
      SimpleVerify ''response'' (DNS01 ''tokenXYZ'') ''a.example.com'' ''pub:account-key''
        (Inr False)]"
  by (simp_all add: run_defs mismatch_env_def demo_world_def demo_record_def dns_cb_def)

lemma verified_run:
  "run_result (complete_dns_challenge demo_env demo_world ''elb'' demo_record) = Some (Inr ())"
  "run_trace (complete_dns_challenge demo_env demo_world ''elb'' demo_record) =
     [Emit ''updating-elb.wait-for-route53'' [(''elb_name'', ''elb''), (''host'', ''a.example.com'')],
      GetChange ''C1'' (Inr ''INSYNC''),
      Emit ''updating-elb.local-validation'' [(''elb_name'', ''elb''), (''host'', ''a.example.com'')],
      SimpleVerify ''response'' (DNS01 ''tokenXYZ'') ''a.example.com'' ''pub:account-key''
        (Inr True),
      Emit ''updating-elb.answer-challenge'' [(''elb_name'', ''elb''), (''host'', ''a.example.com'')],
      AnswerChallenge dns_cb ''response'' (Inr ())]"
  by (simp_all add: run_defs demo_world_def demo_record_def dns_cb_def)

text \<open>C5, a verification that does not match, and one that does.\<close>

theorem complete_dns_challenge_verifies_first_witness:
  "SimpleVerify ''response'' (DNS01 ''tokenXYZ'') ''a.example.com'' ''pub:account-key'' (Inr False)
     \<in> set (run_trace (complete_dns_challenge mismatch_env demo_world ''elb'' demo_record)) \<and>
   run_result (complete_dns_challenge mismatch_env demo_world ''elb'' demo_record)
     = Some (Inl (ValueError ''Failed verification'')) \<and>
   \<not> list_ex is_answer
       (run_trace (complete_dns_challenge mismatch_env demo_world ''elb'' demo_record)) \<and>
   list_ex is_answer (run_trace (complete_dns_challenge demo_env demo_world ''elb'' demo_record)) \<and>
   simple_verify demo_env
     [Emit ''updating-elb.wait-for-route53'' [(''elb_name'', ''elb''), (''host'', ''a.example.com'')],
      GetChange ''C1'' (Inr ''INSYNC''),
      Emit ''updating-elb.local-validation'' [(''elb_name'', ''elb''), (''host'', ''a.example.com'')]]
     ''response'' (DNS01 ''tokenXYZ'') ''a.example.com'' ''pub:account-key'' = Inr True"
proof -
  let ?bad = "complete_dns_challenge mismatch_env demo_world ''elb'' demo_record"
  from run_some[OF mismatch_run(1)] obtain w' where
    w': "?bad = Some (w', Inl (ValueError ''Failed verification''))" "run_trace ?bad = trace w'"
    by blast
  from complete_dns_challenge_verifies_first[OF w'(1)] obtain evs where e:
    "trace w' = trace demo_world @ evs"
    "\<forall>rs c h k. SimpleVerify rs c h k (Inr False) \<in> set evs \<longrightarrow>
        (Inl (ValueError ''Failed verification'') :: error + unit) =
          Inl (ValueError ''Failed verification'') \<and> \<not> list_ex is_answer evs" by blast
  from e(1) w'(2) have evs: "evs = run_trace ?bad" by (simp add: demo_world_def)
  have m: "SimpleVerify ''response'' (DNS01 ''tokenXYZ'') ''a.example.com'' ''pub:account-key''
             (Inr False) \<in> set (run_trace ?bad)"
    by (simp add: mismatch_run(2))
  with e(2) have "\<not> list_ex is_answer (run_trace ?bad)" unfolding evs by blast
  with m mismatch_run(1) show ?thesis by (simp add: verified_run(2))
qed

section \<open>Starting a challenge\<close>

lemma added_append: "trace w' = trace w @ evs \<Longrightarrow> added w w' = evs"
  by (simp add: added_def)

lemma find_dns_challenge_in_filter:
  "find_dns_challenge_in combos =
     map hd (filter (\<lambda>combo. length combo = 1 \<and> (\<exists>t. chall (hd combo) = DNS01 t)) combos)"
  by (induction combos) (auto split: challenge.splits)

text \<open>The outcomes of \<^verbatim>\<open>start_dns_challenge\<close>, one by one.\<close>

lemma start_request_failed:
  assumes "request_domain_challenges env
             (trace w @ [Emit ''updating-elb.request-acme-challenge''
                           [(''elb_name'', elb), (''host'', h)]]) h = Inl e"
  shows "snd (start_dns_challenge env w elb h) = Inl e"
        "added w (fst (start_dns_challenge env w elb h)) =
           [Emit ''updating-elb.request-acme-challenge'' [(''elb_name'', elb), (''host'', h)],
            RequestDomainChallenges h (Inl e)]"
  using assms by (simp_all add: start_dns_challenge_def Let_def added_def)

lemma start_not_one:
  assumes "request_domain_challenges env
             (trace w @ [Emit ''updating-elb.request-acme-challenge''
                           [(''elb_name'', elb), (''host'', h)]]) h = Inr az"
      and "length (find_dns_challenge az) \<noteq> 1"
  shows "\<exists>m. snd (start_dns_challenge env w elb h) = Inl (ValueError m)"
        "added w (fst (start_dns_challenge env w elb h)) =
           [Emit ''updating-elb.request-acme-challenge'' [(''elb_name'', elb), (''host'', h)],
            RequestDomainChallenges h (Inr az)]"
  using assms by (auto simp add: start_dns_challenge_def Let_def added_def split: list.splits)

lemma start_one:
  assumes "request_domain_challenges env
             (trace w @ [Emit ''updating-elb.request-acme-challenge''
                           [(''elb_name'', elb), (''host'', h)]]) h = Inr az"
      and "find_dns_challenge az = [dc]"
  shows "start_dns_challenge env w elb h =
           (case find_zone_id_for_domain env
                   (record_event (emit w ''updating-elb.request-acme-challenge''
                                    [(''elb_name'', elb), (''host'', h)])
                      (RequestDomainChallenges h (Inr az))) h of
              (w3, Inl e) \<Rightarrow> (w3, Inl e)
            | (w3, Inr zone_id) \<Rightarrow>
                (case change_txt_record env
                        (emit w3 ''updating-elb.create-txt-record''
                           [(''elb_name'', elb), (''host'', h)])
                        ''CREATE'' zone_id (validation_domain_name env dc h)
                        (validation env dc (acme_key env)) of
                   (w5, Inl e) \<Rightarrow> (w5, Inl e)
                 | (w5, Inr change_id) \<Rightarrow>
                     (w5, Inr \<lparr> host = h, authz = az, dns_challenge = dc,
                                route53_change_id = change_id, route53_zone_id = zone_id \<rparr>)))"
  using assms by (simp add: start_dns_challenge_def Let_def)

lemma start_one_outcome:
  assumes "request_domain_challenges env
             (trace w @ [Emit ''updating-elb.request-acme-challenge''
                           [(''elb_name'', elb), (''host'', h)]]) h = Inr az"
      and "find_dns_challenge az = [dc]"
  shows "added w (fst (start_dns_challenge env w elb h)) =
           [Emit ''updating-elb.request-acme-challenge'' [(''elb_name'', elb), (''host'', h)],
            RequestDomainChallenges h (Inr az), ListHostedZones] @
           (case scan_pages (list_hosted_zones env
                   (trace w @ [Emit ''updating-elb.request-acme-challenge''
                                 [(''elb_name'', elb), (''host'', h)],
                               RequestDomainChallenges h (Inr az)])) h of
              Inl e \<Rightarrow> []
            | Inr z \<Rightarrow>
               [Emit ''updating-elb.create-txt-record'' [(''elb_name'', elb), (''host'', h)],
                ChangeResourceRecordSets
                  \<lparr> HostedZoneId = z, Action = ''CREATE'',
                    rr_Name = validation_domain_name env dc h, rr_Type = ''TXT'',
                    rr_TTL = DNS_TTL, rr_Value = quoted (validation env dc (acme_key env)) \<rparr>
                  (change_resource_record_sets env
                     (trace w @ [Emit ''updating-elb.request-acme-challenge''
                                   [(''elb_name'', elb), (''host'', h)],
                                 RequestDomainChallenges h (Inr az), ListHostedZones,
                                 Emit ''updating-elb.create-txt-record''
                                   [(''elb_name'', elb), (''host'', h)]])
                     \<lparr> HostedZoneId = z, Action = ''CREATE'',
                       rr_Name = validation_domain_name env dc h, rr_Type = ''TXT'',
                       rr_TTL = DNS_TTL,
                       rr_Value = quoted (validation env dc (acme_key env)) \<rparr>)])"
    and "snd (start_dns_challenge env w elb h) =
           (case scan_pages (list_hosted_zones env
                   (trace w @ [Emit ''updating-elb.request-acme-challenge''
                                 [(''elb_name'', elb), (''host'', h)],
                               RequestDomainChallenges h (Inr az)])) h of
              Inl e \<Rightarrow> Inl e
            | Inr z \<Rightarrow>
               (case change_resource_record_sets env
                     (trace w @ [Emit ''updating-elb.request-acme-challenge''
                                   [(''elb_name'', elb), (''host'', h)],
                                 RequestDomainChallenges h (Inr az), ListHostedZones,
                                 Emit ''updating-elb.create-txt-record''
                                   [(''elb_name'', elb), (''host'', h)]])
                     \<lparr> HostedZoneId = z, Action = ''CREATE'',
                       rr_Name = validation_domain_name env dc h, rr_Type = ''TXT'',
                       rr_TTL = DNS_TTL,
                       rr_Value = quoted (validation env dc (acme_key env)) \<rparr> of
                  Inl e \<Rightarrow> Inl e
                | Inr change_id \<Rightarrow>
                    Inr \<lparr> host = h, authz = az, dns_challenge = dc,
                          route53_change_id = change_id, route53_zone_id = z \<rparr>))"
  unfolding start_one[OF assms]
  by (simp_all add: find_zone_id_for_domain_def change_txt_record_def Let_def added_def
        split: sum.splits)

lemma length_one_single: "length xs = 1 \<Longrightarrow> \<exists>x. xs = [x]"
  by (cases xs) auto

text \<open>
  C7. Every change sent through \<^verbatim>\<open>change_txt_record\<close> is one TXT change whose value is the
  input value between two double quotes; and every record change that
  \<^verbatim>\<open>start_dns_challenge\<close> sends is a CREATE whose record name is the validation domain
  name that the host's DNS-01 challenge derives from the host, with the challenge's
  validation for the account key, quoted, as its value.
\<close>

theorem txt_record_value_and_name:
  "trace (fst (change_txt_record env w action zone_id domain v)) =
     trace w @
     [ChangeResourceRecordSets
        \<lparr> HostedZoneId = zone_id, Action = action, rr_Name = domain, rr_Type = ''TXT'',
          rr_TTL = 30, rr_Value = [CHR 0x22] @ v @ [CHR 0x22] \<rparr>
        (snd (change_txt_record env w action zone_id domain v))] \<and>
   (\<forall>req x. ChangeResourceRecordSets req x
              \<in> set (added w (fst (start_dns_challenge env w elb_name h))) \<longrightarrow>
      (\<exists>az dc.
         request_domain_challenges env
           (trace w @ [Emit ''updating-elb.request-acme-challenge''
                         [(''elb_name'', elb_name), (''host'', h)]]) h = Inr az \<and>
         find_dns_challenge az = [dc] \<and>
         Action req = ''CREATE'' \<and>
         rr_Name req = validation_domain_name env dc h \<and>
         rr_Value req = [CHR 0x22] @ validation env dc (acme_key env) @ [CHR 0x22]))"
proof (intro conjI allI impI)
  show "trace (fst (change_txt_record env w action zone_id domain v)) =
     trace w @
     [ChangeResourceRecordSets
        \<lparr> HostedZoneId = zone_id, Action = action, rr_Name = domain, rr_Type = ''TXT'',
          rr_TTL = 30, rr_Value = [CHR 0x22] @ v @ [CHR 0x22] \<rparr>
        (snd (change_txt_record env w action zone_id domain v))]"
    by (simp add: change_txt_record_def Let_def DNS_TTL_def quoted_def)
next
  fix req x
  let ?E1 = "Emit ''updating-elb.request-acme-challenge''
               [(''elb_name'', elb_name), (''host'', h)]"
  assume m: "ChangeResourceRecordSets req x
               \<in> set (added w (fst (start_dns_challenge env w elb_name h)))"
  show "\<exists>az dc.
         request_domain_challenges env (trace w @ [?E1]) h = Inr az \<and>
         find_dns_challenge az = [dc] \<and>
         Action req = ''CREATE'' \<and>
         rr_Name req = validation_domain_name env dc h \<and>
         rr_Value req = [CHR 0x22] @ validation env dc (acme_key env) @ [CHR 0x22]"
  proof (cases "request_domain_challenges env (trace w @ [?E1]) h")
    case (Inl e)
    from m show ?thesis unfolding start_request_failed(2)[OF Inl] by simp
  next
    case (Inr az)
    show ?thesis
    proof (cases "length (find_dns_challenge az) = 1")
      case False
      from m show ?thesis unfolding start_not_one(2)[OF Inr False] by simp
    next
      case True
      then obtain dc where dc: "find_dns_challenge az = [dc]"
        using length_one_single by blast
      from m have "Action req = ''CREATE'' \<and>
         rr_Name req = validation_domain_name env dc h \<and>
         rr_Value req = [CHR 0x22] @ validation env dc (acme_key env) @ [CHR 0x22]"
        unfolding start_one_outcome(1)[OF Inr dc]
        by (auto simp: quoted_def split: sum.splits)
      with Inr dc show ?thesis by blast
    qed
  qed
qed

text \<open>
  C9. \<^verbatim>\<open>start_dns_challenge\<close> returns a record only when the authorization it was given
  holds exactly one combination of length one whose challenge is DNS-01; when the
  authorization holds none, or two or more, the call raises ValueError after the
  request to the authority and before anything else.
\<close>

theorem start_dns_challenge_exactly_one:
  "(\<forall>a. snd (start_dns_challenge env w elb_name h) = Inr a \<longrightarrow>
        request_domain_challenges env
          (trace w @ [Emit ''updating-elb.request-acme-challenge''
                        [(''elb_name'', elb_name), (''host'', h)]]) h = Inr (authz a) \<and>
        find_dns_challenge (authz a) = [dns_challenge a]) \<and>
   (\<forall>az. request_domain_challenges env
          (trace w @ [Emit ''updating-elb.request-acme-challenge''
                        [(''elb_name'', elb_name), (''host'', h)]]) h = Inr az \<and>
        length (find_dns_challenge az) \<noteq> 1 \<longrightarrow>
        (\<exists>m. snd (start_dns_challenge env w elb_name h) = Inl (ValueError m)) \<and>
        added w (fst (start_dns_challenge env w elb_name h)) =
          [Emit ''updating-elb.request-acme-challenge'' [(''elb_name'', elb_name), (''host'', h)],
           RequestDomainChallenges h (Inr az)]) \<and>
   (\<forall>az. find_dns_challenge az =
        map hd (filter (\<lambda>combo. length combo = 1 \<and> (\<exists>t. chall (hd combo) = DNS01 t))
                  (resolved_combinations az)))"
proof (intro conjI allI impI)
  let ?E1 = "Emit ''updating-elb.request-acme-challenge''
               [(''elb_name'', elb_name), (''host'', h)]"
  fix a
  assume ok: "snd (start_dns_challenge env w elb_name h) = Inr a"
  show "request_domain_challenges env (trace w @ [?E1]) h = Inr (authz a)"
   and "find_dns_challenge (authz a) = [dns_challenge a]"
  proof -
    have "request_domain_challenges env (trace w @ [?E1]) h = Inr (authz a) \<and>
          find_dns_challenge (authz a) = [dns_challenge a]"
    proof (cases "request_domain_challenges env (trace w @ [?E1]) h")
      case (Inl e)
      from ok show ?thesis unfolding start_request_failed(1)[OF Inl] by simp
    next
      case (Inr az)
      show ?thesis
      proof (cases "length (find_dns_challenge az) = 1")
        case False
        from start_not_one(1)[OF Inr False] ok show ?thesis by auto
      next
        case True
        then obtain dc where dc: "find_dns_challenge az = [dc]"
          using length_one_single by blast
        from ok have "authz a = az \<and> dns_challenge a = dc"
          unfolding start_one_outcome(2)[OF Inr dc] by (auto split: sum.splits)
        with Inr dc show ?thesis by simp
      qed
    qed
    then show "request_domain_challenges env (trace w @ [?E1]) h = Inr (authz a)"
      and "find_dns_challenge (authz a) = [dns_challenge a]" by simp_all
  qed
next
  fix az
  assume "request_domain_challenges env
          (trace w @ [Emit ''updating-elb.request-acme-challenge''
                        [(''elb_name'', elb_name), (''host'', h)]]) h = Inr az \<and>
        length (find_dns_challenge az) \<noteq> 1"
  then show "\<exists>m. snd (start_dns_challenge env w elb_name h) = Inl (ValueError m)"
    using start_not_one(1) by blast
next
  fix az
  assume "request_domain_challenges env
          (trace w @ [Emit ''updating-elb.request-acme-challenge''
                        [(''elb_name'', elb_name), (''host'', h)]]) h = Inr az \<and>
        length (find_dns_challenge az) \<noteq> 1"
  then show "added w (fst (start_dns_challenge env w elb_name h)) =
          [Emit ''updating-elb.request-acme-challenge'' [(''elb_name'', elb_name), (''host'', h)],
           RequestDomainChallenges h (Inr az)]"
    using start_not_one(2) by blast
next
  fix az
  show "find_dns_challenge az =
        map hd (filter (\<lambda>combo. length combo = 1 \<and> (\<exists>t. chall (hd combo) = DNS01 t))
                  (resolved_combinations az))"
    by (simp add: find_dns_challenge_def find_dns_challenge_in_filter)
qed


lemma demo_start:
  "added demo_world (fst (start_dns_challenge demo_env demo_world ''elb'' ''a.example.com'')) =
     [Emit ''updating-elb.request-acme-challenge''
        [(''elb_name'', ''elb''), (''host'', ''a.example.com'')],
      RequestDomainChallenges ''a.example.com'' (Inr (demo_authz ''a.example.com'')),
      ListHostedZones,
      Emit ''updating-elb.create-txt-record''
        [(''elb_name'', ''elb''), (''host'', ''a.example.com'')],
      ChangeResourceRecordSets
        \<lparr> HostedZoneId = Some ''Z1'', Action = ''CREATE'',
          rr_Name = ''_acme-challenge.a.example.com'', rr_Type = ''TXT'',
          rr_TTL = 30, rr_Value = [CHR 0x22] @ ''tokenXYZ'' @ [CHR 0x22] \<rparr> (Inr ''C1'')]"
  "snd (start_dns_challenge demo_env demo_world ''elb'' ''a.example.com'') = Inr demo_record"
  by (simp_all add: run_defs added_def demo_world_def DNS_TTL_def quoted_def demo_record_def)

lemma two_dns_start:
  "snd (start_dns_challenge two_dns_env demo_world ''elb'' ''a.example.com'') =
     Inl (ValueError ''too many values to unpack'')"
  by (simp add: run_defs two_dns_env_def find_dns_challenge_def dns_cb_def)


text \<open>C7, the account of the scenario: the proof value \<^verbatim>\<open>tokenXYZ\<close> is published at
  \<^verbatim>\<open>_acme-challenge.a.example.com\<close>, which is not the host.\<close>

theorem txt_record_value_and_name_witness:
  "ChangeResourceRecordSets
     \<lparr> HostedZoneId = Some ''Z1'', Action = ''CREATE'',
       rr_Name = ''_acme-challenge.a.example.com'', rr_Type = ''TXT'',
       rr_TTL = 30, rr_Value = [CHR 0x22] @ ''tokenXYZ'' @ [CHR 0x22] \<rparr> (Inr ''C1'')
     \<in> set (added demo_world
              (fst (start_dns_challenge demo_env demo_world ''elb'' ''a.example.com''))) \<and>
   validation_domain_name demo_env dns_cb ''a.example.com'' = ''_acme-challenge.a.example.com'' \<and>
   ''_acme-challenge.a.example.com'' \<noteq> ''a.example.com'' \<and>
   validation demo_env dns_cb (acme_key demo_env) = ''tokenXYZ''"
  using txt_record_value_and_name
          [of demo_env demo_world "''CREATE''" "Some ''Z1''" "''_acme-challenge.a.example.com''"
              "''tokenXYZ''" "''elb''" "''a.example.com''"]
  by (simp add: demo_start(1))

text \<open>C9, one DNS-01 combination, and an authority that offers two.\<close>

theorem start_dns_challenge_exactly_one_witness:
  "snd (start_dns_challenge demo_env demo_world ''elb'' ''a.example.com'') = Inr demo_record \<and>
   find_dns_challenge (authz demo_record) = [dns_challenge demo_record] \<and>
   request_domain_challenges two_dns_env
     (trace demo_world @ [Emit ''updating-elb.request-acme-challenge''
                            [(''elb_name'', ''elb''), (''host'', ''a.example.com'')]])
     ''a.example.com'' =
     Inr \<lparr> authz_uri = ''authz/a.example.com'',
           resolved_combinations =
             [[dns_cb], [\<lparr> chall = DNS01 ''tokenABC'', chall_uri = ''chall/dns2'' \<rparr>]] \<rparr> \<and>
   length (find_dns_challenge
             \<lparr> authz_uri = ''authz/a.example.com'',
               resolved_combinations =
                 [[dns_cb], [\<lparr> chall = DNS01 ''tokenABC'', chall_uri = ''chall/dns2'' \<rparr>]] \<rparr>) \<noteq> 1 \<and>
   snd (start_dns_challenge two_dns_env demo_world ''elb'' ''a.example.com'') =
     Inl (ValueError ''too many values to unpack'')"
proof -
  from start_dns_challenge_exactly_one[of demo_env demo_world "''elb''" "''a.example.com''"]
       demo_start(2)
  have a: "find_dns_challenge (authz demo_record) = [dns_challenge demo_record]" by blast
  have b: "request_domain_challenges two_dns_env
     (trace demo_world @ [Emit ''updating-elb.request-acme-challenge''
                            [(''elb_name'', ''elb''), (''host'', ''a.example.com'')]])
     ''a.example.com'' =
     Inr \<lparr> authz_uri = ''authz/a.example.com'',
           resolved_combinations =
             [[dns_cb], [\<lparr> chall = DNS01 ''tokenABC'', chall_uri = ''chall/dns2'' \<rparr>]] \<rparr>"
    by (simp add: two_dns_env_def)
  have c: "length (find_dns_challenge
             \<lparr> authz_uri = ''authz/a.example.com'',
               resolved_combinations =
                 [[dns_cb], [\<lparr> chall = DNS01 ''tokenABC'', chall_uri = ''chall/dns2'' \<rparr>]] \<rparr>) \<noteq> 1"
    by (simp add: find_dns_challenge_def dns_cb_def)
  from a b c demo_start(2) two_dns_start show ?thesis by blast
qed



end
